theory Spec2Isabelle
  imports Main "HOL-Library.Word"
begin

unbundle bit_operations_syntax

section \<open>Values of the Python program\<close>

text \<open>
  The authentication service \<^verbatim>\<open>backendauth.py\<close> works on three kinds of strings:
  Python \<^verbatim>\<open>str\<close> (a sequence of code points), \<^verbatim>\<open>bytes\<close> and JSON values. A \<^verbatim>\<open>str\<close> is
  modelled by the list of its code points, so that \<^verbatim>\<open>str.encode()\<close> keeps the branch in
  which it raises (a lone surrogate has no UTF-8 encoding).
\<close>

type_synonym byte = "8 word"
type_synonym bytes = "byte list"
type_synonym pystr = "nat list"

text \<open>The byte with a given value below 256.\<close>

definition byte_of :: "nat \<Rightarrow> byte" where
  "byte_of n = of_nat n"

text \<open>The exceptions that the modelled code and its libraries raise.\<close>

datatype exn =
    UnicodeEncodeError
  | UnicodeDecodeError
  | ValueError
  | BinasciiError
  | AttributeError
  | TypeError
  | SqliteBindError
  | ExpiredSignatureError
  | DecodeError
  | InvalidSignatureError
  | InvalidAlgorithmError
  | ImmatureSignatureError
  | InvalidIssuedAtError
  | InvalidAudienceError
  | KeyError
  | IntegrityError

text \<open>A literal of the source, written in ASCII.\<close>

definition str :: "string \<Rightarrow> pystr" where
  "str s = map of_char s"

subsection \<open>\<^verbatim>\<open>str.encode()\<close>: UTF-8\<close>

definition utf8_enc1 :: "nat \<Rightarrow> bytes option" where
  "utf8_enc1 c =
    (if c < 0x80 then Some [byte_of c]
     else if c < 0x800 then Some [byte_of (0xC0 + c div 64), byte_of (0x80 + c mod 64)]
     else if 0xD800 \<le> c \<and> c \<le> 0xDFFF then None
     else if c < 0x10000 then
       Some [byte_of (0xE0 + c div 4096), byte_of (0x80 + c div 64 mod 64), byte_of (0x80 + c mod 64)]
     else if c < 0x110000 then
       Some [byte_of (0xF0 + c div 262144), byte_of (0x80 + c div 4096 mod 64),
             byte_of (0x80 + c div 64 mod 64), byte_of (0x80 + c mod 64)]
     else None)"

fun utf8_encode :: "pystr \<Rightarrow> exn + bytes" where
  "utf8_encode [] = Inr []"
| "utf8_encode (c # cs) =
    (case utf8_enc1 c of
       None \<Rightarrow> Inl UnicodeEncodeError
     | Some bs \<Rightarrow> (case utf8_encode cs of Inl e \<Rightarrow> Inl e | Inr rest \<Rightarrow> Inr (bs @ rest)))"

section \<open>\<^verbatim>\<open>hashlib.pbkdf2_hmac('sha256', ...)\<close>\<close>

subsection \<open>SHA-256 (FIPS 180-4)\<close>

type_synonym w32 = "32 word"

definition K256 :: "w32 list" where
  "K256 =
   [1116352408, 1899447441, 3049323471, 3921009573, 961987163, 1508970993, 2453635748, 2870763221,
    3624381080, 310598401, 607225278, 1426881987, 1925078388, 2162078206, 2614888103, 3248222580,
    3835390401, 4022224774, 264347078, 604807628, 770255983, 1249150122, 1555081692, 1996064986,
    2554220882, 2821834349, 2952996808, 3210313671, 3336571891, 3584528711, 113926993, 338241895,
    666307205, 773529912, 1294757372, 1396182291, 1695183700, 1986661051, 2177026350, 2456956037,
    2730485921, 2820302411, 3259730800, 3345764771, 3516065817, 3600352804, 4094571909, 275423344,
    430227734, 506948616, 659060556, 883997877, 958139571, 1322822218, 1537002063, 1747873779,
    1955562222, 2024104815, 2227730452, 2361852424, 2428436474, 2756734187, 3204031479, 3329325298]"

definition H256_init :: "w32 list" where
  "H256_init =
   [1779033703, 3144134277, 1013904242, 2773480762, 1359893119, 2600822924, 528734635, 1541459225]"

definition Ch :: "w32 \<Rightarrow> w32 \<Rightarrow> w32 \<Rightarrow> w32" where
  "Ch x y z = (x AND y) XOR (NOT x AND z)"

definition Maj :: "w32 \<Rightarrow> w32 \<Rightarrow> w32 \<Rightarrow> w32" where
  "Maj x y z = (x AND y) XOR (x AND z) XOR (y AND z)"

definition bsig0 :: "w32 \<Rightarrow> w32" where
  "bsig0 x = word_rotr 2 x XOR word_rotr 13 x XOR word_rotr 22 x"

definition bsig1 :: "w32 \<Rightarrow> w32" where
  "bsig1 x = word_rotr 6 x XOR word_rotr 11 x XOR word_rotr 25 x"

definition ssig0 :: "w32 \<Rightarrow> w32" where
  "ssig0 x = word_rotr 7 x XOR word_rotr 18 x XOR drop_bit 3 x"

definition ssig1 :: "w32 \<Rightarrow> w32" where
  "ssig1 x = word_rotr 17 x XOR word_rotr 19 x XOR drop_bit 10 x"

text \<open>Big-endian conversion between four bytes and a 32-bit word.\<close>

definition be32 :: "bytes \<Rightarrow> w32" where
  "be32 bs = foldl (\<lambda>acc b. push_bit 8 acc OR ucast b) 0 (take 4 bs)"

definition be32_bytes :: "w32 \<Rightarrow> bytes" where
  "be32_bytes w = [ucast (drop_bit 24 w), ucast (drop_bit 16 w), ucast (drop_bit 8 w), ucast w]"

definition be64_bytes :: "nat \<Rightarrow> bytes" where
  "be64_bytes n =
     (let w = (of_nat n :: 64 word) in map (\<lambda>i. ucast (drop_bit (8 * (7 - i)) w)) [0..<8])"

text \<open>Padding: a 1 bit, zeros, and the bit length in 64 bits, to a multiple of 64 bytes.\<close>

definition sha256_pad :: "bytes \<Rightarrow> bytes" where
  "sha256_pad m =
     m @ [0x80] @ replicate ((119 - length m mod 64) mod 64) 0 @ be64_bytes (8 * length m)"

fun words_of :: "nat \<Rightarrow> bytes \<Rightarrow> w32 list" where
  "words_of 0 bs = []"
| "words_of (Suc n) bs = be32 bs # words_of n (drop 4 bs)"

text \<open>The message schedule: 16 words of the block extended to 64.\<close>

fun sched :: "nat \<Rightarrow> w32 list \<Rightarrow> w32 list" where
  "sched 0 w = w"
| "sched (Suc n) w =
     (let t = length w
      in sched n (w @ [ssig1 (w ! (t - 2)) + w ! (t - 7) + ssig0 (w ! (t - 15)) + w ! (t - 16)]))"

fun sha256_round :: "w32 list \<Rightarrow> w32 \<times> w32 \<Rightarrow> w32 list" where
  "sha256_round [a, b, c, d, e, f, g, h] (k, w) =
     (let t1 = h + bsig1 e + Ch e f g + k + w;
          t2 = bsig0 a + Maj a b c
      in [t1 + t2, a, b, c, d + t1, e, f, g])"
| "sha256_round s _ = s"

definition sha256_compress :: "w32 list \<Rightarrow> bytes \<Rightarrow> w32 list" where
  "sha256_compress hs block =
     map2 (+) hs (foldl sha256_round hs (zip K256 (sched 48 (words_of 16 block))))"

fun sha256_blocks :: "nat \<Rightarrow> w32 list \<Rightarrow> bytes \<Rightarrow> w32 list" where
  "sha256_blocks 0 hs bs = hs"
| "sha256_blocks (Suc n) hs bs = sha256_blocks n (sha256_compress hs (take 64 bs)) (drop 64 bs)"

definition sha256 :: "bytes \<Rightarrow> bytes" where
  "sha256 m =
     (let p = sha256_pad m
      in concat (map be32_bytes (sha256_blocks (length p div 64) H256_init p)))"

subsection \<open>HMAC (RFC 2104) and PBKDF2 (RFC 8018) over SHA-256\<close>

text \<open>
  HMAC first brings the key to the block size of 64 bytes: a longer key is replaced by
  its hash, and the result is filled up with zero bytes.
\<close>

definition hmac_key :: "bytes \<Rightarrow> bytes" where
  "hmac_key k =
     (let k' = (if length k > 64 then sha256 k else k)
      in k' @ replicate (64 - length k') 0)"

definition hmac_sha256 :: "bytes \<Rightarrow> bytes \<Rightarrow> bytes" where
  "hmac_sha256 k m =
     (let k0 = hmac_key k
      in sha256 (map (\<lambda>b. b XOR 0x5c) k0 @ sha256 (map (\<lambda>b. b XOR 0x36) k0 @ m)))"

fun pbkdf2_iter :: "bytes \<Rightarrow> nat \<Rightarrow> bytes \<Rightarrow> bytes \<Rightarrow> bytes" where
  "pbkdf2_iter k 0 u acc = acc"
| "pbkdf2_iter k (Suc n) u acc =
     (let u' = hmac_sha256 k u in pbkdf2_iter k n u' (map2 (XOR) acc u'))"

text \<open>
  \<^verbatim>\<open>pbkdf2_hmac('sha256', password, salt, iterations)\<close> with the default \<^verbatim>\<open>dklen\<close>: the
  digest size, so one output block.
\<close>

definition pbkdf2_hmac_sha256 :: "bytes \<Rightarrow> bytes \<Rightarrow> nat \<Rightarrow> bytes" where
  "pbkdf2_hmac_sha256 password salt iterations =
     (let u1 = hmac_sha256 password (salt @ [0, 0, 0, 1])
      in pbkdf2_iter password (iterations - 1) u1 u1)"

subsection \<open>\<^verbatim>\<open>bytes.decode('utf-8')\<close>\<close>

text \<open>
  The strict decoder: a lead byte fixes the number of continuation bytes and the range
  of the first of them, so that overlong forms, surrogates and code points above
  \<open>0x10FFFF\<close> are refused.
\<close>

definition is_cont :: "byte \<Rightarrow> bool" where
  "is_cont b = (0x80 \<le> unat b \<and> unat b \<le> 0xBF)"

definition cons_ok :: "'a \<Rightarrow> exn + 'a list \<Rightarrow> exn + 'a list" where
  "cons_ok x r = (case r of Inl e \<Rightarrow> Inl e | Inr xs \<Rightarrow> Inr (x # xs))"

fun utf8_decode :: "bytes \<Rightarrow> exn + pystr" where
  "utf8_decode [] = Inr []"
| "utf8_decode (b0 # rest) =
    (let n0 = unat b0 in
     if n0 < 0x80 then cons_ok n0 (utf8_decode rest)
     else if 0xC2 \<le> n0 \<and> n0 \<le> 0xDF then
       (case rest of
          b1 # r \<Rightarrow>
            if is_cont b1
            then cons_ok ((n0 - 0xC0) * 64 + (unat b1 - 0x80)) (utf8_decode r)
            else Inl UnicodeDecodeError
        | _ \<Rightarrow> Inl UnicodeDecodeError)
     else if 0xE0 \<le> n0 \<and> n0 \<le> 0xEF then
       (case rest of
          b1 # b2 # r \<Rightarrow>
            if (if n0 = 0xE0 then 0xA0 else 0x80) \<le> unat b1
               \<and> unat b1 \<le> (if n0 = 0xED then 0x9F else 0xBF) \<and> is_cont b2
            then cons_ok ((n0 - 0xE0) * 4096 + (unat b1 - 0x80) * 64 + (unat b2 - 0x80))
                   (utf8_decode r)
            else Inl UnicodeDecodeError
        | _ \<Rightarrow> Inl UnicodeDecodeError)
     else if 0xF0 \<le> n0 \<and> n0 \<le> 0xF4 then
       (case rest of
          b1 # b2 # b3 # r \<Rightarrow>
            if (if n0 = 0xF0 then 0x90 else 0x80) \<le> unat b1
               \<and> unat b1 \<le> (if n0 = 0xF4 then 0x8F else 0xBF) \<and> is_cont b2 \<and> is_cont b3
            then cons_ok ((n0 - 0xF0) * 262144 + (unat b1 - 0x80) * 4096
                          + (unat b2 - 0x80) * 64 + (unat b3 - 0x80))
                   (utf8_decode r)
            else Inl UnicodeDecodeError
        | _ \<Rightarrow> Inl UnicodeDecodeError)
     else Inl UnicodeDecodeError)"

section \<open>\<^verbatim>\<open>base64.b64encode\<close> and \<^verbatim>\<open>base64.b64decode\<close>\<close>

definition b64_char :: "nat \<Rightarrow> byte" where
  "b64_char v =
     byte_of (if v < 26 then 65 + v
              else if v < 52 then 71 + v
              else if v < 62 then v - 4
              else if v = 62 then 43
              else 47)"

definition b64_val :: "byte \<Rightarrow> nat option" where
  "b64_val c =
     (let n = unat c in
      if 65 \<le> n \<and> n \<le> 90 then Some (n - 65)
      else if 97 \<le> n \<and> n \<le> 122 then Some (n - 71)
      else if 48 \<le> n \<and> n \<le> 57 then Some (n + 4)
      else if n = 43 then Some 62
      else if n = 47 then Some 63
      else None)"

text \<open>The encoder: three bytes give four characters, and \<open>=\<close> fills the last group.\<close>

fun b64encode :: "bytes \<Rightarrow> bytes" where
  "b64encode [] = []"
| "b64encode [a] =
     [b64_char (unat a div 4), b64_char (unat a mod 4 * 16), 61, 61]"
| "b64encode [a, b] =
     [b64_char (unat a div 4), b64_char (unat a mod 4 * 16 + unat b div 16),
      b64_char (unat b mod 16 * 4), 61]"
| "b64encode (a # b # c # rest) =
     [b64_char (unat a div 4), b64_char (unat a mod 4 * 16 + unat b div 16),
      b64_char (unat b mod 16 * 4 + unat c div 64), b64_char (unat c mod 64)]
     @ b64encode rest"

text \<open>
  The decoder is the loop of \<^verbatim>\<open>binascii.a2b_base64\<close> in its default, non-strict mode:
  \<open>q\<close> is the position in the group of four, \<open>l\<close> the bits left over from the last
  character, \<open>p\<close> the number of padding characters seen, \<open>out\<close> the output so far.
  Characters outside the alphabet are skipped; the shifts and masks of the C code are
  written as multiplication, division and remainder.
\<close>

fun a2b_base64 :: "nat \<Rightarrow> nat \<Rightarrow> nat \<Rightarrow> bytes \<Rightarrow> bytes \<Rightarrow> exn + bytes" where
  "a2b_base64 q l p [] out = (if q \<noteq> 0 then Inl BinasciiError else Inr out)"
| "a2b_base64 q l p (c # cs) out =
     (if c = 61 then
        (if q \<ge> 2 \<and> q + (p + 1) \<ge> 4 then Inr out
         else a2b_base64 q l (if q \<ge> 2 then p + 1 else p) cs out)
      else
        (case b64_val c of
           None \<Rightarrow> a2b_base64 q l p cs out
         | Some v \<Rightarrow>
             if q = 0 then a2b_base64 1 v 0 cs out
             else if q = 1 then a2b_base64 2 (v mod 16) 0 cs (out @ [byte_of (l * 4 + v div 16)])
             else if q = 2 then a2b_base64 3 (v mod 4) 0 cs (out @ [byte_of (l * 16 + v div 4)])
             else a2b_base64 0 0 0 cs (out @ [byte_of (l * 64 + v)])))"

text \<open>
  \<^verbatim>\<open>b64decode\<close> of a \<^verbatim>\<open>str\<close> first encodes it as ASCII, raising \<^verbatim>\<open>ValueError\<close> on any other
  character.
\<close>

definition ascii_bytes :: "pystr \<Rightarrow> exn + bytes" where
  "ascii_bytes s = (if \<forall>c \<in> set s. c < 128 then Inr (map byte_of s) else Inl ValueError)"

definition b64decode :: "pystr \<Rightarrow> exn + bytes" where
  "b64decode s =
     (case ascii_bytes s of Inl e \<Rightarrow> Inl e | Inr bs \<Rightarrow> a2b_base64 0 0 0 bs [])"

section \<open>Credential hasher\<close>

text \<open>
  \<^verbatim>\<open>secrets.token_hex(32)\<close> draws 32 random bytes and writes them in hexadecimal. The
  bytes drawn are a parameter \<open>rnd\<close> of the model.
\<close>

definition hex_digit :: "nat \<Rightarrow> nat" where
  "hex_digit n = (if n < 10 then 48 + n else 87 + n)"

definition token_hex :: "bytes \<Rightarrow> pystr" where
  "token_hex rnd = concat (map (\<lambda>b. [hex_digit (unat b div 16), hex_digit (unat b mod 16)]) rnd)"

definition hash_password :: "bytes \<Rightarrow> pystr \<Rightarrow> pystr option \<Rightarrow> exn + (pystr \<times> pystr)" where
  "hash_password rnd password salt_opt =
     (let salt = (case salt_opt of None \<Rightarrow> token_hex rnd | Some s \<Rightarrow> s) in
      case utf8_encode password of
        Inl e \<Rightarrow> Inl e
      | Inr pw \<Rightarrow>
          (case utf8_encode salt of
             Inl e \<Rightarrow> Inl e
           | Inr sb \<Rightarrow>
               (case utf8_decode (b64encode (pbkdf2_hmac_sha256 pw sb 100000)) of
                  Inl e \<Rightarrow> Inl e
                | Inr h \<Rightarrow> Inr (h, salt))))"

text \<open>With a salt given, \<^verbatim>\<open>hash_password\<close> draws no random bytes.\<close>

definition verify_password :: "pystr \<Rightarrow> pystr \<Rightarrow> pystr \<Rightarrow> exn + bool" where
  "verify_password password pwd_hash salt =
     (case hash_password [] password (Some salt) of
        Inl e \<Rightarrow> Inl e
      | Inr (new_hash, _) \<Rightarrow> Inr (new_hash = pwd_hash))"

section \<open>Symmetric cipher helper\<close>

text \<open>
  \<^verbatim>\<open>encrypt_data\<close> and \<^verbatim>\<open>decrypt_data\<close> use AES-256 in CBC mode with PKCS#7 padding from the
  \<^verbatim>\<open>cryptography\<close> package. The block cipher under the process key \<^verbatim>\<open>AES_KEY\<close> is a
  parameter: its two directions on 16-byte blocks. The mode, the padding, Base64 and
  UTF-8 are modelled in full.
\<close>

record block_cipher =
  enc_block :: "bytes \<Rightarrow> bytes"
  dec_block :: "bytes \<Rightarrow> bytes"

definition xor_bytes :: "bytes \<Rightarrow> bytes \<Rightarrow> bytes" where
  "xor_bytes a b = map2 (XOR) a b"

text \<open>
  What the model needs of AES: both directions keep the block length of 16 bytes, and
  decryption inverts encryption. \<open>demo_cipher\<close> is a small cipher with that property,
  used where a statement has to name a cipher.
\<close>

definition block_inverse :: "(bytes \<Rightarrow> bytes) \<Rightarrow> (bytes \<Rightarrow> bytes) \<Rightarrow> bool" where
  "block_inverse E D = (\<forall>b. length b = 16 \<longrightarrow> length (E b) = 16 \<and> D (E b) = b)"

definition demo_cipher :: block_cipher where
  "demo_cipher = \<lparr>enc_block = map (\<lambda>b. b + 91), dec_block = map (\<lambda>b. b - 91)\<rparr>"

text \<open>\<^verbatim>\<open>padding.PKCS7(128)\<close>: between 1 and 16 bytes are added, each holding their number.\<close>

definition pkcs7_pad :: "bytes \<Rightarrow> bytes" where
  "pkcs7_pad d = (let n = 16 - length d mod 16 in d @ replicate n (byte_of n))"

definition pkcs7_unpad :: "bytes \<Rightarrow> exn + bytes" where
  "pkcs7_unpad d =
     (if d = [] \<or> length d mod 16 \<noteq> 0 then Inl ValueError
      else
        (let n = unat (last d) in
         if n = 0 \<or> n > 16 \<or> (\<exists>b \<in> set (drop (length d - n) d). b \<noteq> last d)
         then Inl ValueError
         else Inr (take (length d - n) d)))"

text \<open>CBC over \<open>n\<close> blocks; \<open>prev\<close> is the IV and then the last ciphertext block.\<close>

fun cbc_encrypt :: "(bytes \<Rightarrow> bytes) \<Rightarrow> nat \<Rightarrow> bytes \<Rightarrow> bytes \<Rightarrow> bytes" where
  "cbc_encrypt E 0 prev d = []"
| "cbc_encrypt E (Suc n) prev d =
     (let c = E (xor_bytes (take 16 d) prev) in c @ cbc_encrypt E n c (drop 16 d))"

fun cbc_decrypt :: "(bytes \<Rightarrow> bytes) \<Rightarrow> nat \<Rightarrow> bytes \<Rightarrow> bytes \<Rightarrow> bytes" where
  "cbc_decrypt D 0 prev d = []"
| "cbc_decrypt D (Suc n) prev d =
     (let c = take 16 d in xor_bytes (D c) prev @ cbc_decrypt D n c (drop 16 d))"

text \<open>
  \<open>iv\<close> stands for the bytes that \<^verbatim>\<open>secrets.token_bytes(16)\<close> returns. The constructor
  \<^verbatim>\<open>Cipher(..., modes.CBC(iv))\<close> refuses an IV that is not one block long. Both functions log
  and re-raise the exception they catch, so it reaches the caller unchanged.
\<close>

definition encrypt_data :: "block_cipher \<Rightarrow> bytes \<Rightarrow> pystr \<Rightarrow> exn + pystr" where
  "encrypt_data A iv data =
     (if length iv \<noteq> 16 then Inl ValueError
      else
        (case utf8_encode data of
           Inl e \<Rightarrow> Inl e
         | Inr d \<Rightarrow>
             (let padded_data = pkcs7_pad d;
                  encrypted = cbc_encrypt (enc_block A) (length padded_data div 16) iv padded_data
              in utf8_decode (b64encode (iv @ encrypted)))))"

definition decrypt_data :: "block_cipher \<Rightarrow> pystr \<Rightarrow> exn + pystr" where
  "decrypt_data A encrypted_data =
     (case b64decode encrypted_data of
        Inl e \<Rightarrow> Inl e
      | Inr encrypted_bytes \<Rightarrow>
          (let iv = take 16 encrypted_bytes;
               encrypted = drop 16 encrypted_bytes
           in if length iv \<noteq> 16 then Inl ValueError
              else if length encrypted mod 16 \<noteq> 0 then Inl ValueError
              else
                (case pkcs7_unpad
                        (cbc_decrypt (dec_block A) (length encrypted div 16) iv encrypted) of
                   Inl e \<Rightarrow> Inl e
                 | Inr decrypted \<Rightarrow> utf8_decode decrypted)))"

section \<open>JSON values\<close>

text \<open>
  The values that \<^verbatim>\<open>request.json\<close> delivers and \<^verbatim>\<open>jsonify\<close> takes. A Python \<^verbatim>\<open>dict\<close> is an
  association list read with \<^const>\<open>map_of\<close>; \<^verbatim>\<open>None\<close> is \<open>JNull\<close>. Floating-point numbers are
  left out.
\<close>

datatype json =
    JNull
  | JBool bool
  | JInt int
  | JStr pystr
  | JArr "json list"
  | JObj "(pystr \<times> json) list"

text \<open>Python's truth value, as \<^verbatim>\<open>not x\<close> and \<^verbatim>\<open>if x:\<close> test it.\<close>

fun truthy :: "json \<Rightarrow> bool" where
  "truthy JNull = False"
| "truthy (JBool b) = b"
| "truthy (JInt n) = (n \<noteq> 0)"
| "truthy (JStr s) = (s \<noteq> [])"
| "truthy (JArr xs) = (xs \<noteq> [])"
| "truthy (JObj kvs) = (kvs \<noteq> [])"

text \<open>\<^verbatim>\<open>data.get(key)\<close>: only a \<^verbatim>\<open>dict\<close> has the method.\<close>

fun py_get :: "json \<Rightarrow> pystr \<Rightarrow> exn + json" where
  "py_get (JObj kvs) k = Inr (case map_of kvs k of None \<Rightarrow> JNull | Some v \<Rightarrow> v)"
| "py_get _ k = Inl AttributeError"

text \<open>
  \<^verbatim>\<open>key in data\<close>: membership in a \<^verbatim>\<open>dict\<close> or a list, a substring test on a \<^verbatim>\<open>str\<close>, and a
  \<^verbatim>\<open>TypeError\<close> on anything else.
\<close>

fun is_substring :: "pystr \<Rightarrow> pystr \<Rightarrow> bool" where
  "is_substring k [] = (k = [])"
| "is_substring k (c # cs) = (take (length k) (c # cs) = k \<or> is_substring k cs)"

fun py_in :: "pystr \<Rightarrow> json \<Rightarrow> exn + bool" where
  "py_in k (JObj kvs) = Inr (k \<in> fst ` set kvs)"
| "py_in k (JArr xs) = Inr (JStr k \<in> set xs)"
| "py_in k (JStr s) = Inr (is_substring k s)"
| "py_in k _ = Inl TypeError"

text \<open>\<^verbatim>\<open>data[key]\<close> with a string key.\<close>

fun py_getitem :: "json \<Rightarrow> pystr \<Rightarrow> exn + json" where
  "py_getitem (JObj kvs) k = (case map_of kvs k of None \<Rightarrow> Inl KeyError | Some v \<Rightarrow> Inr v)"
| "py_getitem _ k = Inl TypeError"

section \<open>Token service\<close>

text \<open>
  \<^verbatim>\<open>generate_token\<close> and \<^verbatim>\<open>verify_token\<close> call PyJWT. The compact serialisation, Base64url,
  the HMAC-SHA256 signature and the validation of the registered claims are modelled;
  the JSON serialiser and parser of the standard library are a parameter: \<open>dumps\<close> is
  \<^verbatim>\<open>json.dumps(..., separators=(",", ":")).encode()\<close>, and \<open>loads\<close> is \<^verbatim>\<open>json.loads\<close>, with
  \<open>None\<close> where it raises \<^verbatim>\<open>ValueError\<close>.
\<close>

record json_codec =
  dumps :: "json \<Rightarrow> bytes"
  loads :: "bytes \<Rightarrow> json option"

subsection \<open>A JSON serialiser and parser\<close>

text \<open>
  \<^verbatim>\<open>json.dumps\<close> with the separators \<^verbatim>\<open>(",", ":")\<close> and \<^verbatim>\<open>json.loads\<close> enter the token service
  as a parameter. The codec below is the instance used where a statement has to name
  one: it writes compact JSON text with the escapes of \<^verbatim>\<open>ensure_ascii\<close>, and it reads JSON
  text without white space. Decimal numbers are written by \<open>int_dec\<close>.
\<close>

fun dec_digits :: "nat \<Rightarrow> nat \<Rightarrow> pystr" where
  "dec_digits 0 n = []"
| "dec_digits (Suc k) n =
     (if n < 10 then [48 + n] else dec_digits k (n div 10) @ [48 + n mod 10])"

text \<open>A number has no more digits than its value plus one.\<close>

definition nat_dec :: "nat \<Rightarrow> pystr" where
  "nat_dec n = dec_digits (Suc n) n"

definition int_dec :: "int \<Rightarrow> pystr" where
  "int_dec i = (if i < 0 then 45 # nat_dec (nat (- i)) else nat_dec (nat i))"

definition hex4 :: "nat \<Rightarrow> bytes" where
  "hex4 n = map (\<lambda>i. byte_of (hex_digit (n div 16 ^ (3 - i) mod 16))) [0..<4]"

definition json_escape :: "nat \<Rightarrow> bytes" where
  "json_escape c =
     (if c = 34 then [92, 34]
      else if c = 92 then [92, 92]
      else if c = 10 then [92, 110]
      else if c = 13 then [92, 114]
      else if c = 9 then [92, 116]
      else if c = 8 then [92, 98]
      else if c = 12 then [92, 102]
      else if 32 \<le> c \<and> c \<le> 126 then [byte_of c]
      else if c < 65536 then [92, 117] @ hex4 c
      else [92, 117] @ hex4 (55296 + (c - 65536) div 1024)
           @ [92, 117] @ hex4 (56320 + (c - 65536) mod 1024))"

definition dump_str :: "pystr \<Rightarrow> bytes" where
  "dump_str s = [34] @ concat (map json_escape s) @ [34]"

fun join_comma :: "bytes list \<Rightarrow> bytes" where
  "join_comma [] = []"
| "join_comma [x] = x"
| "join_comma (x # y # ys) = x @ [44] @ join_comma (y # ys)"

fun json_dumps :: "json \<Rightarrow> bytes" where
  "json_dumps JNull = map byte_of (str ''null'')"
| "json_dumps (JBool b) = map byte_of (if b then str ''true'' else str ''false'')"
| "json_dumps (JInt n) = map byte_of (int_dec n)"
| "json_dumps (JStr s) = dump_str s"
| "json_dumps (JArr xs) = [91] @ join_comma (map json_dumps xs) @ [93]"
| "json_dumps (JObj kvs) =
     [123] @ join_comma (map (\<lambda>kv. dump_str (fst kv) @ [58] @ json_dumps (snd kv)) kvs) @ [125]"

text \<open>The parser stops with \<open>None\<close> where \<^verbatim>\<open>json.loads\<close> raises; \<open>n\<close> bounds its steps.\<close>

definition hex_val :: "byte \<Rightarrow> nat option" where
  "hex_val c =
     (let n = unat c in
      if 48 \<le> n \<and> n \<le> 57 then Some (n - 48)
      else if 97 \<le> n \<and> n \<le> 102 then Some (n - 87)
      else if 65 \<le> n \<and> n \<le> 70 then Some (n - 55)
      else None)"

definition parse_hex4 :: "bytes \<Rightarrow> nat option" where
  "parse_hex4 bs =
     (case map hex_val (take 4 bs) of
        [Some a, Some b, Some c, Some d] \<Rightarrow> Some (((a * 16 + b) * 16 + c) * 16 + d)
      | _ \<Rightarrow> None)"

definition unescape :: "byte \<Rightarrow> nat option" where
  "unescape e =
     (if e = 34 then Some 34 else if e = 92 then Some 92 else if e = 47 then Some 47
      else if e = 110 then Some 10 else if e = 114 then Some 13 else if e = 116 then Some 9
      else if e = 98 then Some 8 else if e = 102 then Some 12 else None)"

fun parse_chars :: "nat \<Rightarrow> bytes \<Rightarrow> (pystr \<times> bytes) option" where
  "parse_chars 0 bs = None"
| "parse_chars (Suc n) [] = None"
| "parse_chars (Suc n) (c # cs) =
     (if c = 34 then Some ([], cs)
      else if unat c < 32 then None
      else if c \<noteq> 92 then
        (case utf8_decode (take 1 (c # cs)) of
           Inr [p] \<Rightarrow> map_option (\<lambda>(s, r). (p # s, r)) (parse_chars n cs)
         | _ \<Rightarrow> None)
      else
        (case cs of
           [] \<Rightarrow> None
         | e # r \<Rightarrow>
             if e = 117 then
               (case parse_hex4 r of
                  None \<Rightarrow> None
                | Some hi \<Rightarrow>
                    (case (if 55296 \<le> hi \<and> hi < 56320 \<and> take 2 (drop 4 r) = [92, 117]
                           then parse_hex4 (drop 6 r) else None) of
                       Some lo \<Rightarrow>
                         if 56320 \<le> lo \<and> lo < 57344
                         then map_option
                                (\<lambda>(s, r'). ((65536 + (hi - 55296) * 1024 + (lo - 56320)) # s, r'))
                                (parse_chars n (drop 10 r))
                         else map_option (\<lambda>(s, r'). (hi # s, r')) (parse_chars n (drop 4 r))
                     | None \<Rightarrow> map_option (\<lambda>(s, r'). (hi # s, r')) (parse_chars n (drop 4 r))))
             else
               (case unescape e of
                  None \<Rightarrow> None
                | Some p \<Rightarrow> map_option (\<lambda>(s, r'). (p # s, r')) (parse_chars n r))))"

fun parse_digits :: "nat \<Rightarrow> bytes \<Rightarrow> nat \<times> bytes" where
  "parse_digits acc [] = (acc, [])"
| "parse_digits acc (c # cs) =
     (if 48 \<le> unat c \<and> unat c \<le> 57 then parse_digits (acc * 10 + (unat c - 48)) cs
      else (acc, c # cs))"

definition is_digit :: "byte \<Rightarrow> bool" where
  "is_digit c = (48 \<le> unat c \<and> unat c \<le> 57)"

fun parse_value :: "nat \<Rightarrow> bytes \<Rightarrow> (json \<times> bytes) option"
  and parse_elems :: "nat \<Rightarrow> bytes \<Rightarrow> (json list \<times> bytes) option"
  and parse_members :: "nat \<Rightarrow> bytes \<Rightarrow> ((pystr \<times> json) list \<times> bytes) option" where
  "parse_value 0 bs = None"
| "parse_value (Suc n) [] = None"
| "parse_value (Suc n) (c # cs) =
     (if c = 34 then map_option (\<lambda>(s, r). (JStr s, r)) (parse_chars (length cs) cs)
      else if c = 91 then
        (case cs of
           [] \<Rightarrow> None
         | d # ds \<Rightarrow>
             if d = 93 then Some (JArr [], ds)
             else map_option (\<lambda>(xs, r). (JArr xs, r)) (parse_elems n cs))
      else if c = 123 then
        (case cs of
           [] \<Rightarrow> None
         | d # ds \<Rightarrow>
             if d = 125 then Some (JObj [], ds)
             else map_option (\<lambda>(kvs, r). (JObj kvs, r)) (parse_members n cs))
      else if take 4 (c # cs) = map byte_of (str ''null'') then Some (JNull, drop 3 cs)
      else if take 4 (c # cs) = map byte_of (str ''true'') then Some (JBool True, drop 3 cs)
      else if take 5 (c # cs) = map byte_of (str ''false'') then Some (JBool False, drop 4 cs)
      else if c = 45 \<and> cs \<noteq> [] \<and> is_digit (hd cs) then
        (case parse_digits 0 cs of (m, r) \<Rightarrow> Some (JInt (- int m), r))
      else if is_digit c then
        (case parse_digits 0 (c # cs) of (m, r) \<Rightarrow> Some (JInt (int m), r))
      else None)"
| "parse_elems 0 bs = None"
| "parse_elems (Suc n) bs =
     (case parse_value n bs of
        None \<Rightarrow> None
      | Some (x, r) \<Rightarrow>
          (case r of
             [] \<Rightarrow> None
           | d # ds \<Rightarrow>
               if d = 93 then Some ([x], ds)
               else if d = 44 then map_option (\<lambda>(xs, r'). (x # xs, r')) (parse_elems n ds)
               else None))"
| "parse_members 0 bs = None"
| "parse_members (Suc n) bs =
     (case bs of
        [] \<Rightarrow> None
      | q # qs \<Rightarrow>
          if q \<noteq> 34 then None
          else
            (case parse_chars (length qs) qs of
               None \<Rightarrow> None
             | Some (k, r) \<Rightarrow>
                 (case r of
                    [] \<Rightarrow> None
                  | colon # r1 \<Rightarrow>
                      if colon \<noteq> 58 then None
                      else
                        (case parse_value n r1 of
                           None \<Rightarrow> None
                         | Some (v, r2) \<Rightarrow>
                             (case r2 of
                                [] \<Rightarrow> None
                              | d # ds \<Rightarrow>
                                  if d = 125 then Some ([(k, v)], ds)
                                  else if d = 44
                                  then map_option (\<lambda>(kvs, r'). ((k, v) # kvs, r'))
                                         (parse_members n ds)
                                  else None)))))"

definition json_loads :: "bytes \<Rightarrow> json option" where
  "json_loads bs =
     (case parse_value (Suc (length bs)) bs of
        Some (v, []) \<Rightarrow> Some v
      | _ \<Rightarrow> None)"

definition py_json :: json_codec where
  "py_json = \<lparr>dumps = json_dumps, loads = json_loads\<rparr>"

definition urlsafe_char :: "byte \<Rightarrow> byte" where
  "urlsafe_char c = (if c = 43 then 45 else if c = 47 then 95 else c)"

definition standard_char :: "byte \<Rightarrow> byte" where
  "standard_char c = (if c = 45 then 43 else if c = 95 then 47 else c)"

definition base64url_encode :: "bytes \<Rightarrow> bytes" where
  "base64url_encode input = filter (\<lambda>c. c \<noteq> 61) (map urlsafe_char (b64encode input))"

text \<open>PyJWT's \<^verbatim>\<open>base64url_decode\<close> fills its input up with \<open>=\<close> to a multiple of four.\<close>

definition repad :: "bytes \<Rightarrow> bytes" where
  "repad x = (if length x mod 4 > 0 then x @ replicate (4 - length x mod 4) 61 else x)"

definition base64url_decode :: "bytes \<Rightarrow> exn + bytes" where
  "base64url_decode input = a2b_base64 0 0 0 (map standard_char (repad input)) []"

text \<open>\<^verbatim>\<open>jwt.rsplit(b".", 1)\<close> and \<^verbatim>\<open>signing_input.split(b".", 1)\<close>, unpacked into two names.\<close>

definition rsplit_dot :: "bytes \<Rightarrow> (bytes \<times> bytes) option" where
  "rsplit_dot bs =
     (if 46 \<in> set bs
      then Some (rev (tl (dropWhile (\<lambda>c. c \<noteq> 46) (rev bs))), rev (takeWhile (\<lambda>c. c \<noteq> 46) (rev bs)))
      else None)"

definition split_dot :: "bytes \<Rightarrow> (bytes \<times> bytes) option" where
  "split_dot bs =
     (if 46 \<in> set bs
      then Some (takeWhile (\<lambda>c. c \<noteq> 46) bs, tl (dropWhile (\<lambda>c. c \<noteq> 46) bs))
      else None)"

definition jwt_header :: json where
  "jwt_header = JObj [(str ''alg'', JStr (str ''HS256'')), (str ''typ'', JStr (str ''JWT''))]"

text \<open>
  The claims of a token issued to the seeded director at the clock reading 0, used
  where a statement needs an authorised caller.
\<close>

definition director_claims :: "(pystr \<times> json) list" where
  "director_claims =
     [(str ''user_id'', JInt 1), (str ''username'', JStr (str ''DirectorEjecutivoAndres'')),
      (str ''role'', JStr (str ''director'')), (str ''exp'', JInt 86400)]"

text \<open>\<^verbatim>\<open>jwt.encode(payload, key, algorithm='HS256')\<close>.\<close>

definition jwt_encode :: "json_codec \<Rightarrow> bytes \<Rightarrow> json \<Rightarrow> exn + pystr" where
  "jwt_encode J key payload =
     (let signing_input =
            base64url_encode (dumps J jwt_header) @ [46] @ base64url_encode (dumps J payload);
          signature = hmac_sha256 key signing_input
      in utf8_decode (signing_input @ [46] @ base64url_encode signature))"

text \<open>
  Clock readings are integers: microseconds since the epoch, the resolution of
  \<^verbatim>\<open>datetime\<close>. A time claim is in whole seconds.
\<close>

definition seconds :: "int \<Rightarrow> int" where
  "seconds t = t div 1000000"

definition hours24 :: int where
  "hours24 = 24 * 3600 * 1000000"

text \<open>
  PyJWT reads a time claim with \<^verbatim>\<open>int(payload[claim])\<close> and catches \<^verbatim>\<open>ValueError\<close> only.
  \<^verbatim>\<open>int\<close> takes an integer as it is and a boolean as 0 or 1; of a \<^verbatim>\<open>str\<close> it reads a decimal
  numeral (white space around it, a sign, single underscores between digits) and raises
  \<^verbatim>\<open>ValueError\<close> otherwise; on \<^verbatim>\<open>None\<close>, a list or a dict it raises \<^verbatim>\<open>TypeError\<close>. The digits
  read are \<^verbatim>\<open>0\<close> to \<^verbatim>\<open>9\<close>; a numeral written with other Unicode digits counts as no numeral,
  and the interpreter's bound on the length of a numeral is left out.
\<close>

definition py_space :: "nat \<Rightarrow> bool" where
  "py_space c =
     ((9 \<le> c \<and> c \<le> 13) \<or> c = 32 \<or> c = 133 \<or> c = 160 \<or> c = 5760
      \<or> (8192 \<le> c \<and> c \<le> 8202) \<or> c = 8232 \<or> c = 8233 \<or> c = 8239 \<or> c = 8287 \<or> c = 12288)"

definition py_digit :: "nat \<Rightarrow> bool" where
  "py_digit c = (48 \<le> c \<and> c \<le> 57)"

fun digits_value :: "nat \<Rightarrow> pystr \<Rightarrow> nat option" where
  "digits_value acc [] = Some acc"
| "digits_value acc (c # cs) =
     (if py_digit c then digits_value (acc * 10 + (c - 48)) cs
      else if c = 95 \<and> cs \<noteq> [] \<and> py_digit (hd cs) then digits_value acc cs
      else None)"

definition int_of_str :: "pystr \<Rightarrow> int option" where
  "int_of_str s =
     (let t = rev (dropWhile py_space (rev (dropWhile py_space s)));
          negative = (t \<noteq> [] \<and> hd t = 45);
          u = (if t \<noteq> [] \<and> (hd t = 45 \<or> hd t = 43) then tl t else t)
      in if u \<noteq> [] \<and> py_digit (hd u)
         then map_option (\<lambda>n. if negative then - int n else int n) (digits_value 0 u)
         else None)"

fun py_int :: "json \<Rightarrow> exn + int" where
  "py_int (JInt n) = Inr n"
| "py_int (JBool b) = Inr (if b then 1 else 0)"
| "py_int (JStr s) = (case int_of_str s of None \<Rightarrow> Inl ValueError | Some n \<Rightarrow> Inr n)"
| "py_int JNull = Inl TypeError"
| "py_int (JArr xs) = Inl TypeError"
| "py_int (JObj kvs) = Inl TypeError"

text \<open>
  A time claim of the payload: absent, an integer, or the exception raised for it, which
  is \<open>err\<close> in the place of a \<^verbatim>\<open>ValueError\<close>.
\<close>

definition time_claim :: "(pystr \<times> json) list \<Rightarrow> pystr \<Rightarrow> exn \<Rightarrow> exn + int option" where
  "time_claim payload name err =
     (case map_of payload name of
        None \<Rightarrow> Inr None
      | Some v \<Rightarrow>
          (case py_int v of
             Inr n \<Rightarrow> Inr (Some n)
           | Inl e \<Rightarrow> if e = ValueError then Inl err else Inl e))"

text \<open>
  The validation of \<^verbatim>\<open>iat\<close>, \<^verbatim>\<open>nbf\<close>, \<^verbatim>\<open>exp\<close> and \<^verbatim>\<open>aud\<close> with the default options, no leeway
  and no expected audience.
\<close>

definition validate_claims :: "int \<Rightarrow> (pystr \<times> json) list \<Rightarrow> exn + (pystr \<times> json) list" where
  "validate_claims now payload =
     (case time_claim payload (str ''iat'') InvalidIssuedAtError of
        Inl e \<Rightarrow> Inl e
      | Inr iat \<Rightarrow>
     if (case iat of None \<Rightarrow> False | Some n \<Rightarrow> n * 1000000 > now)
     then Inl ImmatureSignatureError
     else
     (case time_claim payload (str ''nbf'') DecodeError of
        Inl e \<Rightarrow> Inl e
      | Inr nbf \<Rightarrow>
     if (case nbf of None \<Rightarrow> False | Some n \<Rightarrow> n * 1000000 > now)
     then Inl ImmatureSignatureError
     else
     (case time_claim payload (str ''exp'') DecodeError of
        Inl e \<Rightarrow> Inl e
      | Inr exp \<Rightarrow>
     if (case exp of None \<Rightarrow> False | Some n \<Rightarrow> n * 1000000 \<le> now)
     then Inl ExpiredSignatureError
     else
     (case map_of payload (str ''aud'') of
        None \<Rightarrow> Inr payload
      | Some a \<Rightarrow> if truthy a then Inl InvalidAudienceError else Inr payload))))"

text \<open>
  \<^verbatim>\<open>jwt.decode(token, key, algorithms=['HS256'])\<close> at the clock reading \<open>now\<close>. The token, a
  \<^verbatim>\<open>str\<close>, is first encoded as UTF-8; that step is outside the library's own error
  handling.
\<close>

definition jwt_decode :: "json_codec \<Rightarrow> bytes \<Rightarrow> int \<Rightarrow> pystr \<Rightarrow> exn + (pystr \<times> json) list" where
  "jwt_decode J key now token =
     (case utf8_encode token of
        Inl e \<Rightarrow> Inl e
      | Inr jwt \<Rightarrow>
     (case rsplit_dot jwt of
        None \<Rightarrow> Inl DecodeError
      | Some (signing_input, crypto_segment) \<Rightarrow>
     (case split_dot signing_input of
        None \<Rightarrow> Inl DecodeError
      | Some (header_segment, payload_segment) \<Rightarrow>
     (case base64url_decode header_segment of
        Inl _ \<Rightarrow> Inl DecodeError
      | Inr header_data \<Rightarrow>
     (case loads J header_data of
        Some (JObj header) \<Rightarrow>
          (case base64url_decode payload_segment of
             Inl _ \<Rightarrow> Inl DecodeError
           | Inr payload_data \<Rightarrow>
          (case base64url_decode crypto_segment of
             Inl _ \<Rightarrow> Inl DecodeError
           | Inr signature \<Rightarrow>
               if map_of header (str ''b64'') = Some (JBool False) then Inl DecodeError
               else if map_of header (str ''alg'') \<noteq> Some (JStr (str ''HS256''))
                 then Inl InvalidAlgorithmError
               else if signature \<noteq> hmac_sha256 key signing_input then Inl InvalidSignatureError
               else
                 (case loads J payload_data of
                    Some (JObj payload) \<Rightarrow> validate_claims now payload
                  | _ \<Rightarrow> Inl DecodeError)))
      | _ \<Rightarrow> Inl DecodeError)))))"

text \<open>The exception classes below \<^verbatim>\<open>jwt.InvalidTokenError\<close>.\<close>

fun is_InvalidTokenError :: "exn \<Rightarrow> bool" where
  "is_InvalidTokenError ExpiredSignatureError = True"
| "is_InvalidTokenError DecodeError = True"
| "is_InvalidTokenError InvalidSignatureError = True"
| "is_InvalidTokenError InvalidAlgorithmError = True"
| "is_InvalidTokenError ImmatureSignatureError = True"
| "is_InvalidTokenError InvalidIssuedAtError = True"
| "is_InvalidTokenError InvalidAudienceError = True"
| "is_InvalidTokenError _ = False"

text \<open>
  \<open>secret\<close> is \<^verbatim>\<open>JWT_SECRET\<close> as bytes, \<open>utcnow\<close> the reading of \<^verbatim>\<open>datetime.utcnow()\<close>. PyJWT
  turns the \<^verbatim>\<open>datetime\<close> of \<open>exp\<close> into whole seconds.
\<close>

definition generate_token :: "json_codec \<Rightarrow> bytes \<Rightarrow> int \<Rightarrow> json \<Rightarrow> json \<Rightarrow> json \<Rightarrow> exn + pystr" where
  "generate_token J secret utcnow user_id username role =
     (let payload = JObj [(str ''user_id'', user_id), (str ''username'', username),
                          (str ''role'', role), (str ''exp'', JInt (seconds (utcnow + hours24)))]
      in jwt_encode J secret payload)"

text \<open>
  The result \<open>Inr None\<close> is the \<^verbatim>\<open>None\<close> that \<^verbatim>\<open>verify_token\<close> returns from its two \<^verbatim>\<open>except\<close>
  clauses; \<open>Inl e\<close> is an exception that neither clause catches.
\<close>

definition verify_token :: "json_codec \<Rightarrow> bytes \<Rightarrow> int \<Rightarrow> pystr \<Rightarrow> exn + (pystr \<times> json) list option" where
  "verify_token J secret now token =
     (case jwt_decode J secret now token of
        Inr payload \<Rightarrow> Inr (Some payload)
      | Inl e \<Rightarrow>
          if e = ExpiredSignatureError then Inr None
          else if is_InvalidTokenError e then Inr None
          else Inl e)"

section \<open>The store\<close>

text \<open>
  The three tables of \<^verbatim>\<open>init_db\<close>, each a list of rows in insertion order. A column that
  the handlers fill from the request holds a dynamically typed SQLite value; the
  conversions that a column's type affinity applies when a value is stored are not
  modelled. A timestamp column holds text in the format \<^verbatim>\<open>'%Y-%m-%d %H:%M:%S'\<close>: the clock
  reading cut to whole seconds, which is the integer kept here.
\<close>

datatype sqlval = SNull | SInt int | SText pystr

record usuario =
  u_id :: int
  u_username :: pystr
  u_password_hash :: pystr
  u_salt :: pystr
  u_nombre_completo :: sqlval
  u_email :: sqlval
  u_role :: sqlval
  u_permisos :: sqlval
  u_activo :: sqlval
  u_fecha_creacion :: int
  u_ultimo_acceso :: "int option"
  u_creado_por :: sqlval

record sesion =
  s_id :: int
  s_user_id :: int
  s_token :: pystr
  s_ip_address :: sqlval
  s_user_agent :: sqlval
  s_fecha_inicio :: int
  s_fecha_expiracion :: int
  s_activa :: int

record log_acceso =
  l_user_id :: "int option"
  l_username :: sqlval
  l_accion :: pystr
  l_ip_address :: sqlval
  l_fecha :: int
  l_exitoso :: int

record db =
  usuarios :: "usuario list"
  sesiones :: "sesion list"
  logs_acceso :: "log_acceso list"

text \<open>
  Binding a Python value to a \<open>?\<close> of a statement: \<^verbatim>\<open>sqlite3\<close> takes \<^verbatim>\<open>None\<close>, integers of 64
  bits and strings that have a UTF-8 encoding, and raises on anything else.
\<close>

fun sql_bind :: "json \<Rightarrow> exn + sqlval" where
  "sql_bind JNull = Inr SNull"
| "sql_bind (JBool b) = Inr (SInt (if b then 1 else 0))"
| "sql_bind (JInt n) =
     (if - (2 ^ 63) \<le> n \<and> n < 2 ^ 63 then Inr (SInt n) else Inl SqliteBindError)"
| "sql_bind (JStr s) = (case utf8_encode s of Inl e \<Rightarrow> Inl e | Inr _ \<Rightarrow> Inr (SText s))"
| "sql_bind (JArr xs) = Inl SqliteBindError"
| "sql_bind (JObj kvs) = Inl SqliteBindError"

fun sql_json :: "sqlval \<Rightarrow> json" where
  "sql_json SNull = JNull"
| "sql_json (SInt n) = JInt n"
| "sql_json (SText s) = JStr s"

text \<open>
  The comparison \<^verbatim>\<open>column = ?\<close> on a \<^verbatim>\<open>TEXT\<close> column: an integer parameter is compared as its
  decimal text (\<^const>\<open>int_dec\<close>), and \<^verbatim>\<open>NULL\<close> equals nothing.
\<close>

fun text_eq :: "pystr \<Rightarrow> sqlval \<Rightarrow> bool" where
  "text_eq col SNull = False"
| "text_eq col (SInt n) = (col = int_dec n)"
| "text_eq col (SText s) = (col = s)"

text \<open>
  \<^verbatim>\<open>init_db\<close>: the tables are created empty if they do not exist, and each of the two
  default users is inserted unless a user of that name exists. \<open>rnd1\<close> and \<open>rnd2\<close> are the
  random bytes of the two salts, \<open>now\<close> the reading of the clock.
\<close>

definition empty_db :: db where
  "empty_db = \<lparr>usuarios = [], sesiones = [], logs_acceso = []\<rparr>"

definition next_id :: "int list \<Rightarrow> int" where
  "next_id ids = fold max ids 0 + 1"

definition insert_default ::
  "bytes \<Rightarrow> int \<Rightarrow> pystr \<Rightarrow> pystr \<Rightarrow> pystr \<Rightarrow> pystr \<Rightarrow> pystr \<Rightarrow> pystr \<Rightarrow> db \<Rightarrow> exn + db" where
  "insert_default rnd fecha_actual username password nombre email role permisos d =
     (if \<exists>u \<in> set (usuarios d). u_username u = username then Inr d
      else
        (case hash_password rnd password None of
           Inl e \<Rightarrow> Inl e
         | Inr (pwd_hash, salt) \<Rightarrow>
             Inr (d\<lparr>usuarios := usuarios d @
                    [\<lparr>u_id = next_id (map u_id (usuarios d)), u_username = username,
                      u_password_hash = pwd_hash, u_salt = salt,
                      u_nombre_completo = SText nombre, u_email = SText email,
                      u_role = SText role, u_permisos = SText permisos, u_activo = SInt 1,
                      u_fecha_creacion = fecha_actual, u_ultimo_acceso = None,
                      u_creado_por = SNull\<rparr>]\<rparr>)))"

definition init_db :: "bytes \<Rightarrow> bytes \<Rightarrow> int \<Rightarrow> db \<Rightarrow> exn + db" where
  "init_db rnd1 rnd2 now d =
     (case insert_default rnd1 (seconds now) (str ''DirectorEjecutivoAndres'')
             (str ''Hidalgoajhb41'')
             (str ''Andr'' @ [233] @ str ''s Hidalgo - Director Ejecutivo'')
             (str ''andres@ajhb.com'') (str ''director'') (str ''all'') d of
        Inl e \<Rightarrow> Inl e
      | Inr d1 \<Rightarrow>
          insert_default rnd2 (seconds now) (str ''Secretariosajhb1a'') (str ''Secretosajhb42'')
            (str ''Secretario General'') (str ''secretario@ajhb.com'') (str ''secretario'')
            (str ''ventas,secretarios'') d1)"

text \<open>
  The store after the first start, with fixed random bytes and the clock at 0: the
  director has the id 1 and the secretary the id 2.
\<close>

definition password_digest :: "pystr \<Rightarrow> pystr \<Rightarrow> pystr" where
  "password_digest password salt =
     map unat (b64encode (pbkdf2_hmac_sha256 (map byte_of password) (map byte_of salt) 100000))"

definition director_row :: usuario where
  "director_row =
     \<lparr>u_id = 1, u_username = str ''DirectorEjecutivoAndres'',
      u_password_hash = password_digest (str ''Hidalgoajhb41'') (token_hex (replicate 32 1)),
      u_salt = token_hex (replicate 32 1),
      u_nombre_completo = SText (str ''Andr'' @ [233] @ str ''s Hidalgo - Director Ejecutivo''),
      u_email = SText (str ''andres@ajhb.com''), u_role = SText (str ''director''),
      u_permisos = SText (str ''all''), u_activo = SInt 1, u_fecha_creacion = 0,
      u_ultimo_acceso = None, u_creado_por = SNull\<rparr>"

definition secretario_row :: usuario where
  "secretario_row =
     \<lparr>u_id = 2, u_username = str ''Secretariosajhb1a'',
      u_password_hash = password_digest (str ''Secretosajhb42'') (token_hex (replicate 32 2)),
      u_salt = token_hex (replicate 32 2),
      u_nombre_completo = SText (str ''Secretario General''),
      u_email = SText (str ''secretario@ajhb.com''), u_role = SText (str ''secretario''),
      u_permisos = SText (str ''ventas,secretarios''), u_activo = SInt 1,
      u_fecha_creacion = 0, u_ultimo_acceso = None, u_creado_por = SNull\<rparr>"

definition boot_db :: db where
  "boot_db = \<lparr>usuarios = [director_row, secretario_row], sesiones = [], logs_acceso = []\<rparr>"

section \<open>Requests and responses\<close>

text \<open>
  What a handler reads from the Flask request: the parsed JSON body (\<open>JNull\<close> when there
  is none), the \<^verbatim>\<open>Authorization\<close> header, and the client address and \<^verbatim>\<open>User-Agent\<close> header,
  which reach the handler as values that SQLite can store.
\<close>

record request =
  r_json :: json
  r_authorization :: "pystr option"
  r_remote_addr :: sqlval
  r_user_agent :: sqlval

datatype response = Response (status: nat) (body: json)

definition error_body :: "pystr \<Rightarrow> json" where
  "error_body msg = JObj [(str ''success'', JBool False), (str ''error'', JStr msg)]"

definition credenciales_incompletas :: pystr where
  "credenciales_incompletas = str ''Credenciales incompletas''"

definition credenciales_invalidas :: pystr where
  "credenciales_invalidas = str ''Credenciales inv'' @ [225] @ str ''lidas''"

definition error_interno :: pystr where
  "error_interno = str ''Error interno del servidor''"

definition no_autorizado :: pystr where
  "no_autorizado = str ''No autorizado''"

definition no_eliminar_director :: pystr where
  "no_eliminar_director = str ''No se puede eliminar al director''"

text \<open>
  The text of \<^verbatim>\<open>str(e)\<close> that the user-management handlers put into their 500 response
  is kept as the name of the exception.
\<close>

fun exn_text :: "exn \<Rightarrow> pystr" where
  "exn_text UnicodeEncodeError = str ''UnicodeEncodeError''"
| "exn_text UnicodeDecodeError = str ''UnicodeDecodeError''"
| "exn_text ValueError = str ''ValueError''"
| "exn_text BinasciiError = str ''binascii.Error''"
| "exn_text AttributeError = str ''AttributeError''"
| "exn_text TypeError = str ''TypeError''"
| "exn_text SqliteBindError = str ''sqlite3.ProgrammingError''"
| "exn_text KeyError = str ''KeyError''"
| "exn_text IntegrityError = str ''sqlite3.IntegrityError''"
| "exn_text _ = str ''jwt.InvalidTokenError''"

section \<open>Login and logout\<close>

text \<open>\<^verbatim>\<open>log_access\<close> appends one row; \<open>now\<close> is its reading of the clock.\<close>

definition log_access :: "int option \<Rightarrow> sqlval \<Rightarrow> pystr \<Rightarrow> sqlval \<Rightarrow> bool \<Rightarrow> int \<Rightarrow> db \<Rightarrow> db" where
  "log_access user_id username accion ip_address exitoso now d =
     d\<lparr>logs_acceso := logs_acceso d @
          [\<lparr>l_user_id = user_id, l_username = username, l_accion = accion,
            l_ip_address = ip_address, l_fecha = seconds now,
            l_exitoso = (if exitoso then 1 else 0)\<rparr>]\<rparr>"

text \<open>
  \<^verbatim>\<open>verify_password(password, ...)\<close> on the value taken from the request: only a \<^verbatim>\<open>str\<close> has
  the method \<^verbatim>\<open>encode\<close>.
\<close>

fun check_password :: "json \<Rightarrow> pystr \<Rightarrow> pystr \<Rightarrow> exn + bool" where
  "check_password (JStr password) pwd_hash salt = verify_password password pwd_hash salt"
| "check_password _ pwd_hash salt = Inl AttributeError"

text \<open>
  The clock readings of one call of \<^verbatim>\<open>login\<close>, in the order of the source:
  \<^verbatim>\<open>datetime.utcnow()\<close> in \<^verbatim>\<open>generate_token\<close>, \<^verbatim>\<open>datetime.now()\<close> for \<^verbatim>\<open>fecha_actual\<close>,
  \<^verbatim>\<open>datetime.now()\<close> for \<^verbatim>\<open>fecha_expiracion\<close>, and \<^verbatim>\<open>datetime.now()\<close> in \<^verbatim>\<open>log_access\<close>.
\<close>

record login_clock =
  utcnow_token :: int
  now_actual :: int
  now_expiracion :: int
  now_log :: int

definition login :: "json_codec \<Rightarrow> bytes \<Rightarrow> login_clock \<Rightarrow> request \<Rightarrow> db \<Rightarrow> response \<times> db" where
  "login J secret clk req d =
     (case py_get (r_json req) (str ''username'') of
        Inl e \<Rightarrow> (Response 500 (error_body error_interno), d)
      | Inr username \<Rightarrow>
     (case py_get (r_json req) (str ''password'') of
        Inl e \<Rightarrow> (Response 500 (error_body error_interno), d)
      | Inr password \<Rightarrow>
     if \<not> truthy username \<or> \<not> truthy password
     then (Response 400 (error_body credenciales_incompletas), d)
     else
     (case sql_bind username of
        Inl e \<Rightarrow> (Response 500 (error_body error_interno), d)
      | Inr uname \<Rightarrow>
     (case filter (\<lambda>u. text_eq (u_username u) uname \<and> u_activo u = SInt 1) (usuarios d) of
        [] \<Rightarrow>
          (Response 401 (error_body credenciales_invalidas),
           log_access None uname (str ''login_fallido'') (r_remote_addr req) False (now_log clk) d)
      | user # _ \<Rightarrow>
     (case check_password password (u_password_hash user) (u_salt user) of
        Inl e \<Rightarrow> (Response 500 (error_body error_interno), d)
      | Inr False \<Rightarrow>
          (Response 401 (error_body credenciales_invalidas),
           log_access (Some (u_id user)) uname (str ''login_fallido'') (r_remote_addr req) False
             (now_log clk) d)
      | Inr True \<Rightarrow>
     (case generate_token J secret (utcnow_token clk) (JInt (u_id user))
             (JStr (u_username user)) (sql_json (u_role user)) of
        Inl e \<Rightarrow> (Response 500 (error_body error_interno), d)
      | Inr token \<Rightarrow>
          (let fecha_actual = seconds (now_actual clk);
               fecha_expiracion = seconds (now_expiracion clk + hours24);
               d1 = d\<lparr>usuarios :=
                        map (\<lambda>u. if u_id u = u_id user
                                  then u\<lparr>u_ultimo_acceso := Some fecha_actual\<rparr> else u)
                          (usuarios d),
                      sesiones := sesiones d @
                        [\<lparr>s_id = next_id (map s_id (sesiones d)), s_user_id = u_id user,
                          s_token = token, s_ip_address = r_remote_addr req,
                          s_user_agent = r_user_agent req, s_fecha_inicio = fecha_actual,
                          s_fecha_expiracion = fecha_expiracion, s_activa = 1\<rparr>]\<rparr>
           in (Response 200
                 (JObj [(str ''success'', JBool True), (str ''token'', JStr token),
                        (str ''user'',
                         JObj [(str ''id'', JInt (u_id user)),
                               (str ''username'', JStr (u_username user)),
                               (str ''nombre_completo'', sql_json (u_nombre_completo user)),
                               (str ''role'', sql_json (u_role user)),
                               (str ''permisos'', sql_json (u_permisos user))])]),
               log_access (Some (u_id user)) uname (str ''login_exitoso'') (r_remote_addr req)
                 True (now_log clk) d1))))))))"

definition logout :: "request \<Rightarrow> db \<Rightarrow> response \<times> db" where
  "logout req d =
     (case py_get (r_json req) (str ''token'') of
        Inl e \<Rightarrow> (Response 500 (error_body error_interno), d)
      | Inr token \<Rightarrow>
          if truthy token then
            (case sql_bind token of
               Inl e \<Rightarrow> (Response 500 (error_body error_interno), d)
             | Inr tok \<Rightarrow>
                 (Response 200 (JObj [(str ''success'', JBool True)]),
                  d\<lparr>sesiones :=
                      map (\<lambda>s. if text_eq (s_token s) tok then s\<lparr>s_activa := 0\<rparr> else s)
                        (sesiones d)\<rparr>))
          else (Response 200 (JObj [(str ''success'', JBool True)]), d))"

section \<open>User management\<close>

text \<open>
  \<^verbatim>\<open>request.headers.get('Authorization', '').replace('Bearer ', '')\<close>: every occurrence of
  the seven characters is removed, from the left.
\<close>

function remove_bearer :: "pystr \<Rightarrow> pystr" where
  "remove_bearer [] = []"
| "remove_bearer (c # cs) =
     (if take 7 (c # cs) = str ''Bearer '' then remove_bearer (drop 7 (c # cs))
      else c # remove_bearer cs)"
  by pat_completeness auto
termination
  by (relation "measure length") auto

definition bearer_token :: "request \<Rightarrow> pystr" where
  "bearer_token req = remove_bearer (case r_authorization req of None \<Rightarrow> [] | Some h \<Rightarrow> h)"

text \<open>
  The first lines of each of the four handlers: the token is verified, and the handler
  goes on only with a non-empty payload whose role is \<^verbatim>\<open>'director'\<close>. The result is the
  payload, \<open>Inr None\<close> for the 403 response, or the exception that reaches the handler's
  \<^verbatim>\<open>except Exception\<close>.
\<close>

definition check_director ::
  "json_codec \<Rightarrow> bytes \<Rightarrow> int \<Rightarrow> request \<Rightarrow> exn + (pystr \<times> json) list option" where
  "check_director J secret now req =
     (case verify_token J secret now (bearer_token req) of
        Inl e \<Rightarrow> Inl e
      | Inr None \<Rightarrow> Inr None
      | Inr (Some payload) \<Rightarrow>
          if payload = [] then Inr None
          else
            (case map_of payload (str ''role'') of
               None \<Rightarrow> Inl KeyError
             | Some r \<Rightarrow> if r \<noteq> JStr (str ''director'') then Inr None else Inr (Some payload)))"

definition user_row :: "usuario \<Rightarrow> json" where
  "user_row u =
     JObj [(str ''id'', JInt (u_id u)),
           (str ''username'', JStr (u_username u)),
           (str ''nombre_completo'', sql_json (u_nombre_completo u)),
           (str ''email'', sql_json (u_email u)),
           (str ''role'', sql_json (u_role u)),
           (str ''permisos'', sql_json (u_permisos u)),
           (str ''activo'', sql_json (u_activo u)),
           (str ''fecha_creacion'', JInt (u_fecha_creacion u)),
           (str ''ultimo_acceso'',
            (case u_ultimo_acceso u of None \<Rightarrow> JNull | Some t \<Rightarrow> JInt t))]"

definition get_users :: "json_codec \<Rightarrow> bytes \<Rightarrow> int \<Rightarrow> request \<Rightarrow> db \<Rightarrow> response \<times> db" where
  "get_users J secret now req d =
     (case check_director J secret now req of
        Inl e \<Rightarrow> (Response 500 (error_body (exn_text e)), d)
      | Inr None \<Rightarrow> (Response 403 (error_body no_autorizado), d)
      | Inr (Some payload) \<Rightarrow>
          (Response 200
             (JObj [(str ''success'', JBool True),
                    (str ''data'',
                     JArr (map user_row (sort_key (\<lambda>u. - u_fecha_creacion u) (usuarios d))))]),
           d))"

text \<open>
  \<^verbatim>\<open>update_user\<close> collects the assignments of its \<^verbatim>\<open>UPDATE\<close> statement: one for each of five
  keys that is \<^verbatim>\<open>in data\<close>, in the order of the source, and two for a new password.
\<close>

fun collect_updates :: "json \<Rightarrow> pystr list \<Rightarrow> exn + (pystr \<times> json) list" where
  "collect_updates data [] = Inr []"
| "collect_updates data (k # ks) =
     (case py_in k data of
        Inl e \<Rightarrow> Inl e
      | Inr False \<Rightarrow> collect_updates data ks
      | Inr True \<Rightarrow>
          (case py_getitem data k of
             Inl e \<Rightarrow> Inl e
           | Inr v \<Rightarrow>
               (case collect_updates data ks of
                  Inl e \<Rightarrow> Inl e
                | Inr r \<Rightarrow> Inr ((k, v) # r))))"

fun bind_all :: "(pystr \<times> json) list \<Rightarrow> exn + (pystr \<times> sqlval) list" where
  "bind_all [] = Inr []"
| "bind_all ((k, v) # kvs) =
     (case sql_bind v of
        Inl e \<Rightarrow> Inl e
      | Inr x \<Rightarrow> (case bind_all kvs of Inl e \<Rightarrow> Inl e | Inr r \<Rightarrow> Inr ((k, x) # r)))"

definition set_column :: "pystr \<times> sqlval \<Rightarrow> usuario \<Rightarrow> usuario" where
  "set_column kv u =
     (if fst kv = str ''nombre_completo'' then u\<lparr>u_nombre_completo := snd kv\<rparr>
      else if fst kv = str ''email'' then u\<lparr>u_email := snd kv\<rparr>
      else if fst kv = str ''role'' then u\<lparr>u_role := snd kv\<rparr>
      else if fst kv = str ''permisos'' then u\<lparr>u_permisos := snd kv\<rparr>
      else if fst kv = str ''activo'' then u\<lparr>u_activo := snd kv\<rparr>
      else u)"

text \<open>The columns declared \<^verbatim>\<open>NOT NULL\<close> among those that \<^verbatim>\<open>update_user\<close> can set.\<close>

definition violates_not_null :: "(pystr \<times> sqlval) list \<Rightarrow> bool" where
  "violates_not_null kvs =
     (\<exists>kv \<in> set kvs. snd kv = SNull
        \<and> fst kv \<in> {str ''nombre_completo'', str ''role'', str ''permisos''})"

text \<open>
  The new password of \<^verbatim>\<open>update_user\<close>: \<^verbatim>\<open>hash_password(data['password'])\<close> with a fresh salt
  from the random bytes \<open>rnd\<close>.
\<close>

definition new_password :: "bytes \<Rightarrow> json \<Rightarrow> exn + (pystr \<times> pystr) option" where
  "new_password rnd data =
     (case py_in (str ''password'') data of
        Inl e \<Rightarrow> Inl e
      | Inr False \<Rightarrow> Inr None
      | Inr True \<Rightarrow>
          (case py_getitem data (str ''password'') of
             Inl e \<Rightarrow> Inl e
           | Inr (JStr password) \<Rightarrow>
               (case hash_password rnd password None of Inl e \<Rightarrow> Inl e | Inr hs \<Rightarrow> Inr (Some hs))
           | Inr _ \<Rightarrow> Inl AttributeError))"

definition update_user ::
  "json_codec \<Rightarrow> bytes \<Rightarrow> int \<Rightarrow> bytes \<Rightarrow> int \<Rightarrow> request \<Rightarrow> db \<Rightarrow> response \<times> db" where
  "update_user J secret now rnd user_id req d =
     (case check_director J secret now req of
        Inl e \<Rightarrow> (Response 500 (error_body (exn_text e)), d)
      | Inr None \<Rightarrow> (Response 403 (error_body no_autorizado), d)
      | Inr (Some payload) \<Rightarrow>
     (case collect_updates (r_json req)
             [str ''nombre_completo'', str ''email'', str ''role'', str ''permisos'',
              str ''activo''] of
        Inl e \<Rightarrow> (Response 500 (error_body (exn_text e)), d)
      | Inr updates \<Rightarrow>
     (case new_password rnd (r_json req) of
        Inl e \<Rightarrow> (Response 500 (error_body (exn_text e)), d)
      | Inr pw \<Rightarrow>
          if updates = [] \<and> pw = None
          then (Response 200 (JObj [(str ''success'', JBool True)]), d)
          else
     (case bind_all updates of
        Inl e \<Rightarrow> (Response 500 (error_body (exn_text e)), d)
      | Inr params \<Rightarrow>
          if violates_not_null params \<and> (\<exists>u \<in> set (usuarios d). u_id u = user_id)
          then (Response 500 (error_body (exn_text IntegrityError)), d)
          else
            (Response 200 (JObj [(str ''success'', JBool True)]),
             d\<lparr>usuarios :=
                 map (\<lambda>u. if u_id u = user_id
                           then (case pw of
                                   None \<Rightarrow> fold set_column params u
                                 | Some (pwd_hash, salt) \<Rightarrow>
                                     (fold set_column params u)
                                       \<lparr>u_password_hash := pwd_hash, u_salt := salt\<rparr>)
                           else u)
                   (usuarios d)\<rparr>)))))"

definition delete_user ::
  "json_codec \<Rightarrow> bytes \<Rightarrow> int \<Rightarrow> int \<Rightarrow> request \<Rightarrow> db \<Rightarrow> response \<times> db" where
  "delete_user J secret now user_id req d =
     (case check_director J secret now req of
        Inl e \<Rightarrow> (Response 500 (error_body (exn_text e)), d)
      | Inr None \<Rightarrow> (Response 403 (error_body no_autorizado), d)
      | Inr (Some payload) \<Rightarrow>
          if user_id = 1 then (Response 400 (error_body no_eliminar_director), d)
          else
            (Response 200 (JObj [(str ''success'', JBool True)]),
             d\<lparr>usuarios :=
                 map (\<lambda>u. if u_id u = user_id then u\<lparr>u_activo := SInt 0\<rparr> else u)
                   (usuarios d)\<rparr>))"

section \<open>Concrete requests\<close>

text \<open>
  The inputs of the closed statements below: a signing secret of 64 hexadecimal digits,
  the token issued to the seeded director at the clock reading 0, a request that
  carries this token, and a request without a token.
\<close>

definition demo_secret :: bytes where
  "demo_secret = replicate 64 48"

definition director_token :: pystr where
  "director_token =
     (case generate_token py_json demo_secret 0 (JInt 1)
             (JStr (str ''DirectorEjecutivoAndres'')) (JStr (str ''director'')) of
        Inr token \<Rightarrow> token
      | Inl e \<Rightarrow> [])"

definition director_request :: "json \<Rightarrow> request" where
  "director_request data =
     \<lparr>r_json = data, r_authorization = Some (str ''Bearer '' @ director_token),
      r_remote_addr = SText (str ''127.0.0.1''), r_user_agent = SNull\<rparr>"

definition anonymous_request :: "json \<Rightarrow> request" where
  "anonymous_request data =
     \<lparr>r_json = data, r_authorization = None,
      r_remote_addr = SText (str ''127.0.0.1''), r_user_agent = SNull\<rparr>"

section \<open>Facts about bytes and Base64\<close>

lemma unat_byte_lt: "unat (b :: byte) < 256"
proof -
  have "unat b < 2 ^ LENGTH(8)" by (rule unsigned_less)
  then show ?thesis by simp
qed

lemma unat_byte_of: "n < 256 \<Longrightarrow> unat (byte_of n) = n"
  by (simp add: byte_of_def unat_of_nat)

lemma byte_of_unat: "byte_of (unat b) = b"
  by (simp add: byte_of_def)

lemma unat_b64_char:
  "unat (b64_char v) =
     (if v < 26 then 65 + v else if v < 52 then 71 + v else if v < 62 then v - 4
      else if v = 62 then 43 else 47)"
  unfolding b64_char_def by (rule unat_byte_of) auto

lemma b64_char_lt: "unat (b64_char v) < 128"
  by (auto simp: unat_b64_char)

lemma b64_char_not_pad: "b64_char v \<noteq> 61"
proof
  assume "b64_char v = 61"
  then have "unat (b64_char v) = 61" by simp
  then show False
    by (simp add: unat_b64_char split: if_splits)
qed

lemma b64_val_char: "v < 64 \<Longrightarrow> b64_val (b64_char v) = Some v"
  unfolding b64_val_def Let_def unat_b64_char by (auto split: if_splits)

lemma a2b_pad:
  "a2b_base64 q l p (61 # cs) out =
     (if q \<ge> 2 \<and> q + (p + 1) \<ge> 4 then Inr out
      else a2b_base64 q l (if q \<ge> 2 then p + 1 else p) cs out)"
  by simp

lemma a2b_step:
  assumes "v < 64"
  shows "a2b_base64 q l p (b64_char v # cs) out =
     (if q = 0 then a2b_base64 1 v 0 cs out
      else if q = 1 then a2b_base64 2 (v mod 16) 0 cs (out @ [byte_of (l * 4 + v div 16)])
      else if q = 2 then a2b_base64 3 (v mod 4) 0 cs (out @ [byte_of (l * 16 + v div 4)])
      else a2b_base64 0 0 0 cs (out @ [byte_of (l * 64 + v)]))"
  using assms by (simp add: b64_val_char b64_char_not_pad)

declare a2b_base64.simps(2) [simp del]

lemma a2b_quad:
  assumes "s0 < 64" "s1 < 64" "s2 < 64" "s3 < 64"
  shows "a2b_base64 0 l p (b64_char s0 # b64_char s1 # b64_char s2 # b64_char s3 # cs) out
    = a2b_base64 0 0 0 cs
        (out @ [byte_of (s0 * 4 + s1 div 16), byte_of (s1 mod 16 * 16 + s2 div 4),
                byte_of (s2 mod 4 * 64 + s3)])"
  using assms by (simp add: a2b_step)

lemma a2b_triple:
  assumes "s0 < 64" "s1 < 64" "s2 < 64"
  shows "a2b_base64 0 l p [b64_char s0, b64_char s1, b64_char s2, 61] out
    = Inr (out @ [byte_of (s0 * 4 + s1 div 16), byte_of (s1 mod 16 * 16 + s2 div 4)])"
  using assms by (simp add: a2b_step a2b_pad)

lemma a2b_pair:
  assumes "s0 < 64" "s1 < 64"
  shows "a2b_base64 0 l p [b64_char s0, b64_char s1, 61, 61] out
    = Inr (out @ [byte_of (s0 * 4 + s1 div 16)])"
  using assms by (simp add: a2b_step a2b_pad)

lemma part_div: "t < (m::nat) \<Longrightarrow> (r * m + t) div m = r"
  by simp

lemma part_mod: "t < (m::nat) \<Longrightarrow> (r * m + t) mod m = t"
  by simp

lemma byte_div_bounds:
  fixes a :: byte
  shows "unat a div 4 < 64" "unat a div 16 < 16" "unat a div 64 < 4"
  using unat_byte_lt [of a] by simp_all

lemma sextet_bounds:
  fixes a b c :: byte
  shows "unat a div 4 < 64" "unat a mod 4 * 16 + unat b div 16 < 64"
    "unat b mod 16 * 4 + unat c div 64 < 64" "unat c mod 64 < 64"
    "unat a mod 4 * 16 < 64" "unat b mod 16 * 4 < 64"
proof -
  have a: "unat a mod 4 < 4" and b: "unat b mod 16 < 16" by simp_all
  show "unat a div 4 < 64" by (rule byte_div_bounds)
  show "unat a mod 4 * 16 + unat b div 16 < 64"
    using a byte_div_bounds(2) [of b] by linarith
  show "unat b mod 16 * 4 + unat c div 64 < 64"
    using b byte_div_bounds(3) [of c] by linarith
  show "unat c mod 64 < 64" by simp
  show "unat a mod 4 * 16 < 64" using a by linarith
  show "unat b mod 16 * 4 < 64" using b by linarith
qed

lemma byte_parts:
  fixes a b c :: byte
  shows "unat a div 4 * 4 + (unat a mod 4 * 16 + unat b div 16) div 16 = unat a"
    and "(unat a mod 4 * 16 + unat b div 16) mod 16 * 16
            + (unat b mod 16 * 4 + unat c div 64) div 4 = unat b"
    and "(unat b mod 16 * 4 + unat c div 64) mod 4 * 64 + unat c mod 64 = unat c"
    and "unat a div 4 * 4 + (unat a mod 4 * 16) div 16 = unat a"
    and "(unat a mod 4 * 16 + unat b div 16) mod 16 * 16 + (unat b mod 16 * 4) div 4 = unat b"
proof -
  have d1: "(unat a mod 4 * 16 + unat b div 16) div 16 = unat a mod 4"
    by (rule part_div) (rule byte_div_bounds)
  have m1: "(unat a mod 4 * 16 + unat b div 16) mod 16 = unat b div 16"
    by (rule part_mod) (rule byte_div_bounds)
  have d2: "(unat b mod 16 * 4 + unat c div 64) div 4 = unat b mod 16"
    by (rule part_div) (rule byte_div_bounds)
  have m2: "(unat b mod 16 * 4 + unat c div 64) mod 4 = unat c div 64"
    by (rule part_mod) (rule byte_div_bounds)
  show "unat a div 4 * 4 + (unat a mod 4 * 16 + unat b div 16) div 16 = unat a"
    unfolding d1 by simp
  show "(unat a mod 4 * 16 + unat b div 16) mod 16 * 16
            + (unat b mod 16 * 4 + unat c div 64) div 4 = unat b"
    unfolding m1 d2 by simp
  show "(unat b mod 16 * 4 + unat c div 64) mod 4 * 64 + unat c mod 64 = unat c"
    unfolding m2 by simp
  show "unat a div 4 * 4 + (unat a mod 4 * 16) div 16 = unat a"
    by simp
  show "(unat a mod 4 * 16 + unat b div 16) mod 16 * 16 + (unat b mod 16 * 4) div 4 = unat b"
    unfolding m1 by simp
qed

text \<open>Decoding inverts encoding, whatever the decoder has produced before.\<close>

lemma a2b_b64encode: "a2b_base64 0 l p (b64encode xs) out = Inr (out @ xs)"
proof (induction xs arbitrary: l p out rule: b64encode.induct)
  case 1
  show ?case by simp
next
  case (2 a)
  show ?case
    by (simp only: b64encode.simps a2b_pair [OF sextet_bounds(1) sextet_bounds(5)]
          byte_parts byte_of_unat)
next
  case (3 a b)
  show ?case
    by (simp only: b64encode.simps
          a2b_triple [OF sextet_bounds(1) sextet_bounds(2) sextet_bounds(6)]
          byte_parts byte_of_unat)
next
  case (4 a b c rest)
  show ?case
    by (simp only: b64encode.simps append_Cons append_Nil
          a2b_quad [OF sextet_bounds(1) sextet_bounds(2) sextet_bounds(3) sextet_bounds(4)]
          byte_parts byte_of_unat "4.IH" append_assoc)
qed

lemma b64encode_inj: "b64encode xs = b64encode ys \<Longrightarrow> xs = ys"
proof -
  assume "b64encode xs = b64encode ys"
  then have "a2b_base64 0 0 0 (b64encode xs) [] = a2b_base64 0 0 0 (b64encode ys) []" by simp
  then show ?thesis by (simp add: a2b_b64encode)
qed

lemma b64encode_ascii: "b \<in> set (b64encode xs) \<Longrightarrow> unat b < 128"
  by (induction xs rule: b64encode.induct) (auto simp: b64_char_lt)

lemma utf8_decode_ascii: "\<forall>b \<in> set bs. unat b < 128 \<Longrightarrow> utf8_decode bs = Inr (map unat bs)"
  by (induction bs) (simp_all add: cons_ok_def Let_def)

section \<open>Credential hasher\<close>

lemma utf8_encode_append:
  "utf8_encode (xs @ ys) =
     (case utf8_encode xs of
        Inl e \<Rightarrow> Inl e
      | Inr a \<Rightarrow> (case utf8_encode ys of Inl e \<Rightarrow> Inl e | Inr b \<Rightarrow> Inr (a @ b)))"
  by (induction xs) (auto split: option.splits sum.splits)

lemma utf8_encode_ascii:
  "\<forall>c \<in> set s. c < 128 \<Longrightarrow> utf8_encode s = Inr (map byte_of s)"
  by (induction s) (simp_all add: utf8_enc1_def)

lemma hex_digit_ascii: "n < 16 \<Longrightarrow> hex_digit n < 128"
  by (simp add: hex_digit_def)

lemma token_hex_ascii: "c \<in> set (token_hex rnd) \<Longrightarrow> c < 128"
proof -
  have "unat b div 16 < 16" for b :: byte
    using unat_byte_lt [of b] by simp
  then show "c \<in> set (token_hex rnd) \<Longrightarrow> c < 128"
    by (auto simp: token_hex_def hex_digit_ascii)
qed

lemma utf8_encode_token_hex: "utf8_encode (token_hex rnd) = Inr (map byte_of (token_hex rnd))"
  by (rule utf8_encode_ascii) (simp add: token_hex_ascii)

lemma utf8_decode_b64encode: "utf8_decode (b64encode xs) = Inr (map unat (b64encode xs))"
  by (rule utf8_decode_ascii) (simp add: b64encode_ascii)

lemma map_unat_inj: "map unat (xs :: bytes) = map unat ys \<Longrightarrow> xs = ys"
  by (simp add: inj_map_eq_map [OF inj_onI])

text \<open>What \<^verbatim>\<open>hash_password\<close> returns when both strings can be encoded.\<close>

lemma hash_password_value:
  assumes "utf8_encode P = Inr pb" "utf8_encode S = Inr sb"
  shows "hash_password rnd P (Some S)
           = Inr (map unat (b64encode (pbkdf2_hmac_sha256 pb sb 100000)), S)"
  using assms by (simp add: hash_password_def utf8_decode_b64encode)

lemma hash_password_fresh:
  assumes "utf8_encode P = Inr pb"
  shows "hash_password rnd P None
           = Inr (map unat (b64encode
                    (pbkdf2_hmac_sha256 pb (map byte_of (token_hex rnd)) 100000)),
                  token_hex rnd)"
  using assms
  by (simp add: hash_password_def Let_def utf8_decode_b64encode utf8_encode_token_hex)

lemma hash_password_Inr:
  assumes "hash_password rnd P so = Inr (h, s)"
  obtains pb sb where "utf8_encode P = Inr pb" "utf8_encode s = Inr sb"
    "h = map unat (b64encode (pbkdf2_hmac_sha256 pb sb 100000))"
  using assms
  by (auto simp: hash_password_def Let_def utf8_decode_b64encode split: sum.splits option.splits)

lemma verify_password_value:
  assumes "utf8_encode P' = Inr pb'" "utf8_encode S = Inr sb"
  shows "verify_password P' (map unat (b64encode d)) S
           = Inr (pbkdf2_hmac_sha256 pb' sb 100000 = d)"
  using assms
  by (auto simp: verify_password_def hash_password_value dest: map_unat_inj b64encode_inj)

text \<open>A key and the same key followed by a zero byte are the same HMAC key.\<close>

lemma hmac_key_nul: "length k < 64 \<Longrightarrow> hmac_key (k @ [0]) = hmac_key k"
proof -
  assume "length k < 64"
  then have "64 - length k = Suc (64 - (length k + 1))" by simp
  then have "replicate (64 - length k) (0::byte) = 0 # replicate (64 - (length k + 1)) 0"
    by (simp only: replicate_Suc)
  with \<open>length k < 64\<close> show ?thesis by (simp add: hmac_key_def)
qed

lemma hmac_sha256_nul: "length k < 64 \<Longrightarrow> hmac_sha256 (k @ [0]) m = hmac_sha256 k m"
  by (simp add: hmac_sha256_def hmac_key_nul)

lemma pbkdf2_iter_nul:
  "length k < 64 \<Longrightarrow> pbkdf2_iter (k @ [0]) n u acc = pbkdf2_iter k n u acc"
  by (induction n arbitrary: u acc) (simp_all add: hmac_sha256_nul Let_def)

lemma pbkdf2_nul:
  "length k < 64 \<Longrightarrow> pbkdf2_hmac_sha256 (k @ [0]) s c = pbkdf2_hmac_sha256 k s c"
  by (simp add: pbkdf2_hmac_sha256_def hmac_sha256_nul pbkdf2_iter_nul)

lemma verify_password_nul:
  assumes "utf8_encode P = Inr pb" "utf8_encode S = Inr sb" "length pb < 64"
  shows "verify_password (P @ [0]) (map unat (b64encode (pbkdf2_hmac_sha256 pb sb 100000))) S
           = Inr True"
proof -
  have "utf8_encode (P @ [0]) = Inr (pb @ [0])"
    using assms(1) by (simp add: utf8_encode_append utf8_enc1_def byte_of_def)
  then show ?thesis
    using assms by (simp add: verify_password_value pbkdf2_nul)
qed

text \<open>
  C2 (amended). Whenever \<^verbatim>\<open>hash_password\<close> returns a digest \<open>h\<close> and a salt \<open>s\<close> for a
  password \<open>P\<close> (with the salt given or freshly generated), \<^verbatim>\<open>verify_password\<close> accepts \<open>P\<close>;
  and for any other password \<open>P'\<close> that can be encoded it returns whether PBKDF2 gives
  \<open>P'\<close> the digest of \<open>P\<close>. That \<open>P'\<close> differs from \<open>P\<close> does not make the answer false.
\<close>

theorem hash_password_verify:
  assumes "hash_password rnd P so = Inr (h, s)"
  shows "verify_password P h s = Inr True
    \<and> (\<forall>P' pb pb' sb.
          utf8_encode P = Inr pb \<longrightarrow> utf8_encode s = Inr sb \<longrightarrow> utf8_encode P' = Inr pb' \<longrightarrow>
          verify_password P' h s
            = Inr (pbkdf2_hmac_sha256 pb' sb 100000 = pbkdf2_hmac_sha256 pb sb 100000))"
proof -
  from assms obtain pb sb where enc: "utf8_encode P = Inr pb" "utf8_encode s = Inr sb"
    and h: "h = map unat (b64encode (pbkdf2_hmac_sha256 pb sb 100000))"
    by (rule hash_password_Inr)
  have "verify_password P h s = Inr True"
    unfolding h using enc by (simp add: verify_password_value)
  moreover have "verify_password P' h s
            = Inr (pbkdf2_hmac_sha256 pb' sb' 100000 = pbkdf2_hmac_sha256 pb0 sb' 100000)"
    if "utf8_encode P = Inr pb0" "utf8_encode s = Inr sb'" "utf8_encode P' = Inr pb'"
    for P' pb0 pb' sb'
    unfolding h using enc that by (simp add: verify_password_value)
  ultimately show ?thesis by blast
qed

theorem hash_password_verify_witness:
  "hash_password [] (str ''a'') (Some (str ''0''))
      = Inr (map unat (b64encode (pbkdf2_hmac_sha256 [97] [48] 100000)), str ''0'')
   \<and> verify_password (str ''a'') (map unat (b64encode (pbkdf2_hmac_sha256 [97] [48] 100000)))
        (str ''0'') = Inr True"
proof -
  have enc: "utf8_encode (str ''a'') = Inr [97]" "utf8_encode (str ''0'') = Inr [48]"
    by (simp_all add: str_def utf8_enc1_def byte_of_def)
  have h: "hash_password [] (str ''a'') (Some (str ''0''))
      = Inr (map unat (b64encode (pbkdf2_hmac_sha256 [97] [48] 100000)), str ''0'')"
    by (rule hash_password_value [OF enc])
  from hash_password_verify [OF h] h show ?thesis by blast
qed

text \<open>
  The claim as stated fails: the password \<open>a\<close> followed by a NUL character is not the
  password \<open>a\<close>, and it verifies against the hash of \<open>a\<close>.
\<close>

theorem verify_password_counterexample:
  "hash_password [] (str ''a'') (Some (str ''0''))
      = Inr (map unat (b64encode (pbkdf2_hmac_sha256 [97] [48] 100000)), str ''0'')
   \<and> str ''a'' @ [0] \<noteq> str ''a''
   \<and> verify_password (str ''a'' @ [0])
        (map unat (b64encode (pbkdf2_hmac_sha256 [97] [48] 100000))) (str ''0'') = Inr True"
proof -
  have enc: "utf8_encode (str ''a'') = Inr [97]" "utf8_encode (str ''0'') = Inr [48]"
    by (simp_all add: str_def utf8_enc1_def byte_of_def)
  have "hash_password [] (str ''a'') (Some (str ''0''))
      = Inr (map unat (b64encode (pbkdf2_hmac_sha256 [97] [48] 100000)), str ''0'')"
    by (rule hash_password_value [OF enc])
  moreover have "verify_password (str ''a'' @ [0])
        (map unat (b64encode (pbkdf2_hmac_sha256 [97] [48] 100000))) (str ''0'') = Inr True"
    by (rule verify_password_nul [OF enc]) simp
  ultimately show ?thesis by simp
qed

section \<open>UTF-8\<close>

lemma cont_byte: "r < 64 \<Longrightarrow> is_cont (byte_of (128 + r)) \<and> unat (byte_of (128 + r)) - 128 = r"
  by (simp add: is_cont_def unat_byte_of)

lemma utf8_dec_enc1:
  assumes "utf8_enc1 c = Some bs"
  shows "utf8_decode (bs @ rest) = cons_ok c (utf8_decode rest)"
proof -
  consider (one) "c < 128" | (two) "128 \<le> c" "c < 2048"
    | (three) "2048 \<le> c" "c < 65536" "\<not> (55296 \<le> c \<and> c \<le> 57343)"
    | (four) "65536 \<le> c" "c < 1114112"
    using assms by (auto simp: utf8_enc1_def split: if_splits)
  then show ?thesis
  proof cases
    case one
    then have "bs = [byte_of c]" using assms by (simp add: utf8_enc1_def)
    with one show ?thesis by (simp add: unat_byte_of Let_def)
  next
    case two
    define q where "q = c div 64"
    define r where "r = c mod 64"
    have c: "c = q * 64 + r" and r: "r < 64" by (simp_all add: q_def r_def)
    have q: "2 \<le> q" "q < 32" using two c r by linarith+
    have bs: "bs = [byte_of (192 + q), byte_of (128 + r)]"
      using assms two by (simp add: utf8_enc1_def q_def r_def)
    have n0: "unat (byte_of (192 + q)) = 192 + q" using q by (simp add: unat_byte_of)
    show ?thesis
      unfolding bs using q cont_byte [OF r]
      by (simp add: n0 Let_def c)
  next
    case three
    define q where "q = c div 4096"
    define m where "m = c div 64 mod 64"
    define r where "r = c mod 64"
    have m: "m < 64" and r: "r < 64" by (simp_all add: m_def r_def)
    have c: "c = q * 4096 + m * 64 + r"
    proof -
      have "c = c div 64 * 64 + r" by (simp add: r_def)
      moreover have "c div 64 = c div 64 div 64 * 64 + m" by (simp add: m_def)
      moreover have "c div 64 div 64 = q" by (simp add: q_def div_mult2_eq)
      ultimately show ?thesis by linarith
    qed
    have q: "q < 16" using three c by linarith
    have bs: "bs = [byte_of (224 + q), byte_of (128 + m), byte_of (128 + r)]"
      using assms three by (simp add: utf8_enc1_def q_def m_def r_def)
    have n0: "unat (byte_of (224 + q)) = 224 + q" using q by (simp add: unat_byte_of)
    have n1: "unat (byte_of (128 + m)) = 128 + m" using m by (simp add: unat_byte_of)
    have lo: "q = 0 \<Longrightarrow> 32 \<le> m" using three c r by linarith
    have hi: "q = 13 \<Longrightarrow> m \<le> 31" using three c r m by auto
    show ?thesis
      unfolding bs using q m lo hi cont_byte [OF r]
      by (simp add: n0 n1 Let_def c)
  next
    case four
    define q where "q = c div 262144"
    define k where "k = c div 4096 mod 64"
    define m where "m = c div 64 mod 64"
    define r where "r = c mod 64"
    have k: "k < 64" and m: "m < 64" and r: "r < 64" by (simp_all add: k_def m_def r_def)
    have c: "c = q * 262144 + k * 4096 + m * 64 + r"
    proof -
      have "c = c div 64 * 64 + r" by (simp add: r_def)
      moreover have "c div 64 = c div 64 div 64 * 64 + m" by (simp add: m_def)
      moreover have "c div 64 div 64 = c div 4096" by (simp add: div_mult2_eq)
      moreover have "c div 4096 = c div 4096 div 64 * 64 + k" by (simp add: k_def)
      moreover have "c div 4096 div 64 = q" by (simp add: q_def div_mult2_eq)
      ultimately show ?thesis by linarith
    qed
    have q: "q \<le> 4" using four c k m r by linarith
    have lo: "q = 0 \<Longrightarrow> 16 \<le> k" using four c m r by linarith
    have bs: "bs = [byte_of (240 + q), byte_of (128 + k), byte_of (128 + m), byte_of (128 + r)]"
      using assms four by (simp add: utf8_enc1_def q_def k_def m_def r_def)
    have n0: "unat (byte_of (240 + q)) = 240 + q" using q by (simp add: unat_byte_of)
    have n1: "unat (byte_of (128 + k)) = 128 + k" using k by (simp add: unat_byte_of)
    have hi: "q = 4 \<Longrightarrow> k \<le> 15" using four c m r by linarith
    show ?thesis
      unfolding bs using q k lo hi cont_byte [OF m] cont_byte [OF r]
      by (simp add: n0 n1 Let_def c)
  qed
qed

text \<open>Decoding inverts encoding.\<close>

lemma utf8_decode_encode: "utf8_encode T = Inr d \<Longrightarrow> utf8_decode d = Inr T"
proof (induction T arbitrary: d)
  case Nil
  then show ?case by simp
next
  case (Cons c cs)
  from Cons.prems obtain bs rest where bs: "utf8_enc1 c = Some bs"
    and rest: "utf8_encode cs = Inr rest" and d: "d = bs @ rest"
    by (auto split: option.splits sum.splits)
  show ?case
    unfolding d utf8_dec_enc1 [OF bs] by (simp add: Cons.IH [OF rest] cons_ok_def)
qed

section \<open>Symmetric cipher helper\<close>

lemma xor_bytes_cancel: "length a = length b \<Longrightarrow> xor_bytes (xor_bytes a b) b = a"
proof (induction a arbitrary: b)
  case Nil
  then show ?case by (simp add: xor_bytes_def)
next
  case (Cons x xs)
  then obtain y ys where b: "b = y # ys" and len: "length xs = length ys"
    by (cases b) auto
  have "xor_bytes (xor_bytes xs ys) ys = xs" by (rule Cons.IH [OF len])
  then show ?case
    by (simp add: b xor_bytes_def bit.xor_cancel_right ac_simps)
qed

lemma length_xor_bytes: "length (xor_bytes a b) = min (length a) (length b)"
  by (simp add: xor_bytes_def)

lemma length_cbc_encrypt:
  assumes "block_inverse E D"
  shows "length prev = 16 \<Longrightarrow> length d = 16 * n \<Longrightarrow> length (cbc_encrypt E n prev d) = 16 * n"
proof (induction n arbitrary: prev d)
  case 0
  then show ?case by simp
next
  case (Suc n)
  have blk: "length (xor_bytes (take 16 d) prev) = 16"
    using Suc.prems by (simp add: length_xor_bytes)
  then have c: "length (E (xor_bytes (take 16 d) prev)) = 16"
    using assms by (simp add: block_inverse_def)
  have "length (drop 16 d) = 16 * n" using Suc.prems by simp
  from Suc.IH [OF c this] c show ?case by (simp add: Let_def)
qed

lemma cbc_decrypt_encrypt:
  assumes "block_inverse E D"
  shows "length prev = 16 \<Longrightarrow> length d = 16 * n
         \<Longrightarrow> cbc_decrypt D n prev (cbc_encrypt E n prev d) = d"
proof (induction n arbitrary: prev d)
  case 0
  then show ?case by simp
next
  case (Suc n)
  let ?p = "xor_bytes (take 16 d) prev"
  have blk: "length ?p = 16"
    using Suc.prems by (simp add: length_xor_bytes)
  then have c: "length (E ?p) = 16" and inv: "D (E ?p) = ?p"
    using assms by (simp_all add: block_inverse_def)
  have rest: "length (drop 16 d) = 16 * n" using Suc.prems by simp
  have first: "xor_bytes ?p prev = take 16 d"
    by (rule xor_bytes_cancel) (use Suc.prems in simp)
  have "cbc_decrypt D (Suc n) prev (cbc_encrypt E (Suc n) prev d)
        = take 16 d @ cbc_decrypt D n (E ?p) (cbc_encrypt E n (E ?p) (drop 16 d))"
    using c by (simp add: Let_def inv first)
  also have "\<dots> = take 16 d @ drop 16 d"
    by (simp only: Suc.IH [OF c rest])
  finally show ?case by simp
qed

lemma pkcs7_pad_length: "length (pkcs7_pad d) mod 16 = 0" "pkcs7_pad d \<noteq> []"
proof -
  define q where "q = length d div 16"
  define r where "r = length d mod 16"
  have d: "length d = q * 16 + r" and r: "r < 16" by (simp_all add: q_def r_def)
  have "length (pkcs7_pad d) = length d + (16 - r)"
    by (simp add: pkcs7_pad_def Let_def r_def)
  also have "\<dots> = (q + 1) * 16" using d r by simp
  finally have len: "length (pkcs7_pad d) = (q + 1) * 16" .
  show "length (pkcs7_pad d) mod 16 = 0" unfolding len by simp
  from len show "pkcs7_pad d \<noteq> []" by auto
qed

lemma pkcs7_unpad_pad: "pkcs7_unpad (pkcs7_pad d) = Inr d"
proof -
  define n where "n = 16 - length d mod 16"
  have n: "1 \<le> n" "n \<le> 16" by (simp_all add: n_def)
  have pad: "pkcs7_pad d = d @ replicate n (byte_of n)"
    by (simp add: pkcs7_pad_def n_def Let_def)
  have last: "last (pkcs7_pad d) = byte_of n"
    unfolding pad using n by simp
  have un: "unat (byte_of n) = n" using n by (simp add: unat_byte_of)
  have len: "length (pkcs7_pad d) - n = length d" by (simp add: pad)
  have "drop (length d) (pkcs7_pad d) = replicate n (byte_of n)" by (simp add: pad)
  moreover have "take (length d) (pkcs7_pad d) = d" by (simp add: pad)
  ultimately show ?thesis
    using n pkcs7_pad_length [of d]
    by (simp add: pkcs7_unpad_def last un len Let_def)
qed

lemma ascii_bytes_unat:
  "\<forall>b \<in> set bs. unat b < 128 \<Longrightarrow> ascii_bytes (map unat (bs :: bytes)) = Inr bs"
  by (simp add: ascii_bytes_def byte_of_unat o_def)

lemma b64decode_b64encode: "b64decode (map unat (b64encode xs)) = Inr xs"
  by (simp add: b64decode_def ascii_bytes_unat b64encode_ascii a2b_b64encode)


lemma encrypt_data_value:
  assumes "length iv = 16" "utf8_encode T = Inr d"
  shows "encrypt_data A iv T
    = Inr (map unat (b64encode
             (iv @ cbc_encrypt (enc_block A) (length (pkcs7_pad d) div 16) iv (pkcs7_pad d))))"
  using assms by (simp add: encrypt_data_def Let_def utf8_decode_ascii b64encode_ascii)

lemma decrypt_data_value:
  assumes "block_inverse (enc_block A) (dec_block A)" "length iv = 16"
  shows "decrypt_data A (map unat (b64encode
             (iv @ cbc_encrypt (enc_block A) (length (pkcs7_pad d) div 16) iv (pkcs7_pad d))))
         = utf8_decode d"
proof -
  define n where "n = length (pkcs7_pad d) div 16"
  have len: "length (pkcs7_pad d) = 16 * n"
    using pkcs7_pad_length(1) [of d] by (auto simp: n_def)
  have enc: "length (cbc_encrypt (enc_block A) n iv (pkcs7_pad d)) = 16 * n"
    by (rule length_cbc_encrypt [OF assms len])
  have dec: "cbc_decrypt (dec_block A) n iv (cbc_encrypt (enc_block A) n iv (pkcs7_pad d))
             = pkcs7_pad d"
    by (rule cbc_decrypt_encrypt [OF assms len])
  show ?thesis
    unfolding n_def [symmetric]
    using assms(2) enc
    by (simp add: decrypt_data_def b64decode_b64encode Let_def dec pkcs7_unpad_pad)
qed

lemma demo_cipher_inverse: "block_inverse (enc_block demo_cipher) (dec_block demo_cipher)"
  by (simp add: block_inverse_def demo_cipher_def o_def)

text \<open>
  C6 (amended). For every plaintext \<open>T\<close> that has a UTF-8 encoding and every IV of 16
  bytes, \<^verbatim>\<open>encrypt_data\<close> returns a token and \<^verbatim>\<open>decrypt_data\<close> of that token returns \<open>T\<close>,
  for every block cipher that decryption inverts.
\<close>

theorem decrypt_encrypt_roundtrip:
  assumes "block_inverse (enc_block A) (dec_block A)" "length iv = 16" "utf8_encode T = Inr d"
  shows "\<exists>token. encrypt_data A iv T = Inr token \<and> decrypt_data A token = Inr T"
  using encrypt_data_value [OF assms(2,3), of A] decrypt_data_value [OF assms(1,2), of d]
    utf8_decode_encode [OF assms(3)]
  by simp

theorem decrypt_encrypt_roundtrip_witness:
  "\<exists>token. encrypt_data demo_cipher (replicate 16 0) (str ''secreto'') = Inr token
     \<and> decrypt_data demo_cipher token = Inr (str ''secreto'')"
proof -
  have enc: "utf8_encode (str ''secreto'') = Inr (map byte_of (str ''secreto''))"
    by (rule utf8_encode_ascii) (simp add: str_def)
  show ?thesis
    by (rule decrypt_encrypt_roundtrip [OF demo_cipher_inverse _ enc]) simp
qed

text \<open>
  The claim as stated fails on a plaintext without a UTF-8 encoding: for the string of
  the one code point \<open>0xD800\<close>, a lone surrogate, \<^verbatim>\<open>encrypt_data\<close> raises and there is no
  token to decrypt.
\<close>

theorem encrypt_data_counterexample:
  "encrypt_data demo_cipher (replicate 16 0) [0xD800] = Inl UnicodeEncodeError"
  by (simp add: encrypt_data_def utf8_enc1_def)

section \<open>Token service\<close>

lemma b64_char_range:
  "unat (b64_char v) \<in> {43, 47} \<union> {48..57} \<union> {65..90} \<union> {97..122}"
  by (auto simp: unat_b64_char)

lemma b64_char_neq:
  "b64_char v \<noteq> 45" "b64_char v \<noteq> 95" "b64_char v \<noteq> 46"
proof -
  have "unat (b64_char v) \<noteq> 45 \<and> unat (b64_char v) \<noteq> 95 \<and> unat (b64_char v) \<noteq> 46"
    using b64_char_range [of v] by auto
  then show "b64_char v \<noteq> 45" "b64_char v \<noteq> 95" "b64_char v \<noteq> 46" by auto
qed

lemma urlsafe_b64_char:
  "standard_char (urlsafe_char (b64_char v)) = b64_char v"
  "urlsafe_char (b64_char v) \<noteq> 61"
  "urlsafe_char (b64_char v) \<noteq> 46"
  "unat (urlsafe_char (b64_char v)) < 128"
  using b64_char_neq [of v] b64_char_not_pad [of v] b64_char_lt [of v]
  by (auto simp: standard_char_def urlsafe_char_def)

lemma urlsafe_pad: "urlsafe_char 61 = 61" "standard_char 61 = 61"
  by (simp_all add: urlsafe_char_def standard_char_def)

text \<open>Filling the stripped padding up again and mapping back gives the Base64 text.\<close>

lemma repad_quad: "repad (a # b # c # d # x) = a # b # c # d # repad x"
  by (simp add: repad_def)

lemma repad_base64url: "map standard_char (repad (base64url_encode y)) = b64encode y"
proof (induction y rule: b64encode.induct)
  case 1
  show ?case by (simp add: base64url_encode_def repad_def)
next
  case (2 a)
  show ?case
    by (simp add: base64url_encode_def repad_def urlsafe_b64_char urlsafe_pad numeral_2_eq_2)
next
  case (3 a b)
  show ?case
    by (simp add: base64url_encode_def repad_def urlsafe_b64_char urlsafe_pad)
next
  case (4 a b c rest)
  let ?q = "[urlsafe_char (b64_char (unat a div 4)),
             urlsafe_char (b64_char (unat a mod 4 * 16 + unat b div 16)),
             urlsafe_char (b64_char (unat b mod 16 * 4 + unat c div 64)),
             urlsafe_char (b64_char (unat c mod 64))]"
  have "base64url_encode (a # b # c # rest) = ?q @ base64url_encode rest"
    by (simp add: base64url_encode_def urlsafe_b64_char)
  then have "map standard_char (repad (base64url_encode (a # b # c # rest)))
        = map standard_char ?q @ map standard_char (repad (base64url_encode rest))"
    by (simp add: repad_quad)
  then show ?case by (simp add: "4.IH" urlsafe_b64_char)
qed

lemma base64url_decode_encode: "base64url_decode (base64url_encode y) = Inr y"
  by (simp add: base64url_decode_def repad_base64url a2b_b64encode)

lemma b64encode_members: "b \<in> set (b64encode xs) \<Longrightarrow> b = 61 \<or> (\<exists>v. b = b64_char v)"
  by (induction xs rule: b64encode.induct) auto

lemma base64url_encode_chars:
  assumes "c \<in> set (base64url_encode y)"
  shows "c \<noteq> 46" "unat c < 128"
proof -
  from assms obtain b where "b \<in> set (b64encode y)" and c: "c = urlsafe_char b" and "c \<noteq> 61"
    by (auto simp: base64url_encode_def)
  then obtain v where "c = urlsafe_char (b64_char v)"
    using b64encode_members [of b y] by (auto simp: urlsafe_pad)
  then show "c \<noteq> 46" "unat c < 128" by (simp_all add: urlsafe_b64_char)
qed

lemma rsplit_dot_join: "46 \<notin> set s \<Longrightarrow> rsplit_dot (x @ [46] @ s) = Some (x, s)"
proof -
  assume s: "46 \<notin> set s"
  have "rev (x @ [46] @ s) = rev s @ 46 # rev x" by simp
  moreover have "takeWhile (\<lambda>c. c \<noteq> 46) (rev s @ 46 # rev x) = rev s"
    using s by (auto simp: takeWhile_tail)
  moreover have "dropWhile (\<lambda>c. c \<noteq> 46) (rev s @ 46 # rev x) = 46 # rev x"
    using s by (auto simp: dropWhile_append3)
  ultimately show ?thesis by (simp add: rsplit_dot_def)
qed

lemma split_dot_join: "46 \<notin> set h \<Longrightarrow> split_dot (h @ [46] @ p) = Some (h, p)"
proof -
  assume h: "46 \<notin> set h"
  have "takeWhile (\<lambda>c. c \<noteq> 46) (h @ 46 # p) = h"
    using h by (auto simp: takeWhile_tail)
  moreover have "dropWhile (\<lambda>c. c \<noteq> 46) (h @ 46 # p) = 46 # p"
    using h by (auto simp: dropWhile_append3)
  ultimately show ?thesis by (simp add: split_dot_def)
qed

lemma utf8_encode_unat:
  "\<forall>b \<in> set bs. unat b < 128 \<Longrightarrow> utf8_encode (map unat (bs :: bytes)) = Inr bs"
proof -
  assume "\<forall>b \<in> set bs. unat b < 128"
  then have "utf8_encode (map unat bs) = Inr (map byte_of (map unat bs))"
    by (intro utf8_encode_ascii) simp
  then show ?thesis by (simp add: byte_of_unat o_def)
qed


lemma base64url_encode_no_dot: "46 \<notin> set (base64url_encode y)"
  using base64url_encode_chars(1) by blast

lemma jwt_token_ascii:
  "\<forall>b \<in> set (base64url_encode h @ [46] @ base64url_encode p @ [46] @ base64url_encode s).
     unat b < 128"
  by (auto simp: base64url_encode_chars(2))

lemma jwt_encode_value:
  "jwt_encode J key payload
     = Inr (map unat
         (base64url_encode (dumps J jwt_header) @ [46] @ base64url_encode (dumps J payload)
          @ [46]
          @ base64url_encode
              (hmac_sha256 key
                 (base64url_encode (dumps J jwt_header) @ [46]
                  @ base64url_encode (dumps J payload)))))"
  using jwt_token_ascii [of "dumps J jwt_header" "dumps J payload"]
  by (simp add: jwt_encode_def Let_def utf8_decode_ascii)

text \<open>
  Decoding a token made by \<^verbatim>\<open>jwt.encode\<close> comes down to validating the claims that the JSON
  parser reads from the serialised payload.
\<close>

lemma jwt_decode_encode:
  assumes "loads J (dumps J jwt_header) = Some jwt_header"
    and "loads J (dumps J (JObj payload)) = Some (JObj claims)"
    and "jwt_encode J key (JObj payload) = Inr token"
  shows "jwt_decode J key now token = validate_claims now claims"
proof -
  let ?h = "base64url_encode (dumps J jwt_header)"
  let ?p = "base64url_encode (dumps J (JObj payload))"
  let ?s = "base64url_encode (hmac_sha256 key (?h @ [46] @ ?p))"
  have token: "token = map unat (?h @ [46] @ ?p @ [46] @ ?s)"
    using assms(3) by (simp add: jwt_encode_value)
  have "utf8_encode (map unat (?h @ [46] @ ?p @ [46] @ ?s)) = Inr (?h @ [46] @ ?p @ [46] @ ?s)"
    by (rule utf8_encode_unat) (rule jwt_token_ascii)
  then have enc: "utf8_encode token = Inr ((?h @ [46] @ ?p) @ [46] @ ?s)"
    unfolding token by simp
  have r: "rsplit_dot ((?h @ [46] @ ?p) @ [46] @ ?s) = Some (?h @ [46] @ ?p, ?s)"
    by (rule rsplit_dot_join) (rule base64url_encode_no_dot)
  have s: "split_dot (?h @ [46] @ ?p) = Some (?h, ?p)"
    by (rule split_dot_join) (rule base64url_encode_no_dot)
  define hl where "hl = [(str ''alg'', JStr (str ''HS256'')), (str ''typ'', JStr (str ''JWT''))]"
  have "Some jwt_header = Some (JObj hl)" by (simp add: jwt_header_def hl_def)
  then have hdr: "loads J (dumps J jwt_header) = Some (JObj hl)"
    by (simp only: assms(1))
  have alg: "map_of hl (str ''alg'') = Some (JStr (str ''HS256''))"
    and b64: "map_of hl (str ''b64'') = None"
    by (simp_all add: hl_def str_def)
  show ?thesis
    by (simp only: jwt_decode_def enc r s hdr assms(2) base64url_decode_encode alg b64
          option.simps sum.simps prod.simps json.simps simp_thms if_True if_False)
qed

lemma seconds_hours24: "seconds (t + hours24) = seconds t + 86400"
  by (simp add: seconds_def hours24_def)

lemma validate_claims_token:
  "validate_claims now
     [(str ''user_id'', uid), (str ''username'', uname), (str ''role'', role),
      (str ''exp'', JInt e)]
   = (if e * 1000000 \<le> now then Inl ExpiredSignatureError
      else Inr [(str ''user_id'', uid), (str ''username'', uname), (str ''role'', role),
                (str ''exp'', JInt e)])"
  by (simp add: validate_claims_def time_claim_def str_def)

text \<open>What the validation of the claims raises, and what it lets through.\<close>

lemma py_int_Inl: "py_int v = Inl e \<Longrightarrow> e = ValueError \<or> e = TypeError"
  by (cases v) (auto split: option.splits)

lemma time_claim_Inl:
  assumes "time_claim p name err = Inl e"
  shows "e = err \<or> e = TypeError"
  using assms py_int_Inl
  by (fastforce simp: time_claim_def split: option.splits sum.splits if_splits)

lemma validate_claims_Inl:
  assumes "validate_claims now p = Inl e"
  shows "is_InvalidTokenError e \<or> e = TypeError"
proof -
  have "is_InvalidTokenError e' \<or> e' = TypeError"
    if "time_claim p name err = Inl e'" "is_InvalidTokenError err" for name err e'
    using time_claim_Inl [OF that(1)] that(2) by auto
  from this [of "str ''iat''" InvalidIssuedAtError] this [of "str ''nbf''" DecodeError]
    this [of "str ''exp''" DecodeError] assms
  show ?thesis
    by (auto simp: validate_claims_def split: sum.splits option.splits if_splits)
qed

lemma validate_claims_Inr:
  assumes "validate_claims now p = Inr q"
  shows "q = p" and "map_of p (str ''exp'') = Some (JInt e) \<Longrightarrow> now < e * 1000000"
  using assms
  by (auto simp: validate_claims_def time_claim_def split: sum.splits option.splits if_splits)

lemma jwt_decode_Inl:
  assumes "utf8_encode token = Inr jwt" "jwt_decode J key now token = Inl e"
  shows "is_InvalidTokenError e
       \<or> e = TypeError
         \<and> (\<exists>signing_input crypto_segment.
               rsplit_dot jwt = Some (signing_input, crypto_segment)
             \<and> base64url_decode crypto_segment = Inr (hmac_sha256 key signing_input))"
  using assms(2) unfolding jwt_decode_def assms(1)
  by (auto split: option.splits sum.splits json.splits prod.splits if_splits
        dest: validate_claims_Inl)

lemma jwt_decode_Inr:
  assumes "jwt_decode J key now token = Inr payload"
  shows "\<exists>jwt signing_input crypto_segment.
           utf8_encode token = Inr jwt
         \<and> rsplit_dot jwt = Some (signing_input, crypto_segment)
         \<and> base64url_decode crypto_segment = Inr (hmac_sha256 key signing_input)
         \<and> validate_claims now payload = Inr payload"
  using assms unfolding jwt_decode_def
  by (auto split: option.splits sum.splits json.splits prod.splits if_splits
        dest: validate_claims_Inr(1))

text \<open>
  For a token that has a UTF-8 encoding, \<^verbatim>\<open>verify_token\<close> returns \<^verbatim>\<open>None\<close> unless the signature
  is the HMAC of the signing input under the secret. For a token signed so it returns
  \<^verbatim>\<open>None\<close> or the payload, whose \<open>exp\<close> lies in the future, or it raises the \<^verbatim>\<open>TypeError\<close> of
  \<^verbatim>\<open>int\<close> on a time claim that is null, a list or an object.
\<close>

lemma verify_token_encodable:
  assumes "utf8_encode token = Inr jwt"
  shows "verify_token J secret now token = Inr None
       \<or> (\<exists>signing_input crypto_segment.
             rsplit_dot jwt = Some (signing_input, crypto_segment)
           \<and> base64url_decode crypto_segment = Inr (hmac_sha256 secret signing_input)
           \<and> (verify_token J secret now token = Inl TypeError
              \<or> (\<exists>payload. verify_token J secret now token = Inr (Some payload)
                   \<and> (\<forall>e. map_of payload (str ''exp'') = Some (JInt e) \<longrightarrow> now < e * 1000000))))"
proof (cases "jwt_decode J secret now token")
  case (Inl e)
  from jwt_decode_Inl [OF assms Inl] show ?thesis
  proof
    assume "is_InvalidTokenError e"
    with Inl show ?thesis by (simp add: verify_token_def)
  next
    assume "e = TypeError
         \<and> (\<exists>signing_input crypto_segment.
               rsplit_dot jwt = Some (signing_input, crypto_segment)
             \<and> base64url_decode crypto_segment = Inr (hmac_sha256 secret signing_input))"
    moreover from this Inl have "verify_token J secret now token = Inl TypeError"
      by (simp add: verify_token_def)
    ultimately show ?thesis by blast
  qed
next
  case (Inr payload)
  from jwt_decode_Inr [OF Inr] assms obtain signing_input crypto_segment where
    "rsplit_dot jwt = Some (signing_input, crypto_segment)"
    "base64url_decode crypto_segment = Inr (hmac_sha256 secret signing_input)"
    "validate_claims now payload = Inr payload"
    by auto
  moreover have "verify_token J secret now token = Inr (Some payload)"
    using Inr by (simp add: verify_token_def)
  ultimately show ?thesis
    using validate_claims_Inr(2) by blast
qed

text \<open>A signed token whose \<open>exp\<close> is null: \<^verbatim>\<open>int(None)\<close> raises, and nothing catches it.\<close>

lemma validate_claims_null: "validate_claims now [(str ''exp'', JNull)] = Inl TypeError"
  by (simp add: validate_claims_def time_claim_def str_def)

text \<open>The three failures that the claim names, each returning \<^verbatim>\<open>None\<close>.\<close>

lemma verify_token_malformed:
  assumes "utf8_encode token = Inr jwt" "rsplit_dot jwt = None"
  shows "verify_token J secret now token = Inr None"
  using assms by (simp add: verify_token_def jwt_decode_def)

lemma verify_token_bad_signature:
  assumes "utf8_encode token = Inr jwt" "rsplit_dot jwt = Some (signing_input, crypto_segment)"
    and "base64url_decode crypto_segment \<noteq> Inr (hmac_sha256 secret signing_input)"
  shows "verify_token J secret now token = Inr None"
  using verify_token_encodable [OF assms(1), of J secret now] assms(2,3) by auto

lemma verify_token_expired:
  assumes "jwt_decode J secret now token = Inl ExpiredSignatureError"
  shows "verify_token J secret now token = Inr None"
  using assms by (simp add: verify_token_def)

text \<open>
  C3. The code breaks the claim on a token that has no UTF-8 encoding: PyJWT encodes the
  \<^verbatim>\<open>str\<close> before it enters its own error handling, and the \<^verbatim>\<open>UnicodeEncodeError\<close> is not an
  \<^verbatim>\<open>InvalidTokenError\<close>, so \<^verbatim>\<open>verify_token\<close> raises it to its caller.
\<close>

theorem verify_token_raises: "verify_token J secret now [0xD800] = Inl UnicodeEncodeError"
  by (simp add: verify_token_def jwt_decode_def utf8_enc1_def)


section \<open>The JSON codec reads back what it writes\<close>































text \<open>
  What \<^verbatim>\<open>generate_token\<close> returns, and what \<^verbatim>\<open>verify_token\<close> makes of it at a clock reading
  \<open>t1\<close>, when the JSON parser reads back what the serialiser wrote for the header and
  for the claims.
\<close>

lemma generate_verify:
  assumes "loads J (dumps J jwt_header) = Some jwt_header"
    and "loads J (dumps J (JObj [(str ''user_id'', uid), (str ''username'', uname),
            (str ''role'', role), (str ''exp'', JInt (seconds t0 + 86400))]))
         = Some (JObj [(str ''user_id'', uid), (str ''username'', uname),
            (str ''role'', role), (str ''exp'', JInt (seconds t0 + 86400))])"
  shows "\<exists>token. generate_token J secret t0 uid uname role = Inr token
      \<and> (\<forall>t1. verify_token J secret t1 token =
            (if (seconds t0 + 86400) * 1000000 \<le> t1 then Inr None
             else Inr (Some [(str ''user_id'', uid), (str ''username'', uname),
                             (str ''role'', role), (str ''exp'', JInt (seconds t0 + 86400))])))"
proof -
  let ?claims = "[(str ''user_id'', uid), (str ''username'', uname),
                  (str ''role'', role), (str ''exp'', JInt (seconds t0 + 86400))]"
  obtain token where enc: "jwt_encode J secret (JObj ?claims) = Inr token"
    by (simp add: jwt_encode_value)
  then have gen: "generate_token J secret t0 uid uname role = Inr token"
    by (simp add: generate_token_def seconds_hours24)
  have "verify_token J secret t1 token =
            (if (seconds t0 + 86400) * 1000000 \<le> t1 then Inr None else Inr (Some ?claims))" for t1
    by (simp add: verify_token_def jwt_decode_encode [OF assms enc] validate_claims_token)
  with gen show ?thesis by blast
qed

text \<open>The JSON codec reads back the header and the claims of the director's token.\<close>

lemmas parse_value_num =
  parse_value.simps(3) [of "pred_numeral k" for k, folded numeral_eq_Suc]

lemmas parse_elems_num =
  parse_elems.simps(2) [of "pred_numeral k" for k, folded numeral_eq_Suc]

lemmas parse_members_num =
  parse_members.simps(2) [of "pred_numeral k" for k, folded numeral_eq_Suc]

lemmas parse_chars_num =
  parse_chars.simps(3) [of "pred_numeral k" for k, folded numeral_eq_Suc]

lemmas dec_digits_num =
  dec_digits.simps(2) [of "pred_numeral k" for k, folded numeral_eq_Suc]

lemma py_json_header: "loads py_json (dumps py_json jwt_header) = Some jwt_header"
proof -
  have "json_dumps jwt_header = [123, 34, 97, 108, 103, 34, 58, 34, 72, 83, 50, 53, 54, 34, 44, 34, 116, 121, 112, 34, 58, 34, 74, 87, 84, 34, 125]"
    by (simp add: jwt_header_def dump_str_def json_escape_def str_def byte_of_def)
  moreover have "json_loads [123, 34, 97, 108, 103, 34, 58, 34, 72, 83, 50, 53, 54, 34, 44, 34, 116, 121, 112, 34, 58, 34, 74, 87, 84, 34, 125] = Some jwt_header"
    by (simp add: json_loads_def parse_value_num parse_members_num parse_chars_num
          jwt_header_def str_def cons_ok_def Let_def byte_of_def)
  ultimately show ?thesis by (simp add: py_json_def)
qed

lemma py_json_director:
  "loads py_json (dumps py_json (JObj director_claims)) = Some (JObj director_claims)"
proof -
  have "json_dumps (JObj director_claims) = [123, 34, 117, 115, 101, 114, 95, 105, 100, 34, 58, 49, 44, 34, 117, 115, 101, 114, 110, 97, 109, 101, 34, 58, 34, 68, 105, 114, 101, 99, 116, 111, 114, 69, 106, 101, 99, 117, 116, 105, 118, 111, 65, 110, 100, 114, 101, 115, 34, 44, 34, 114, 111, 108, 101, 34, 58, 34, 100, 105, 114, 101, 99, 116, 111, 114, 34, 44, 34, 101, 120, 112, 34, 58, 56, 54, 52, 48, 48, 125]"
    by (simp add: director_claims_def dump_str_def json_escape_def str_def byte_of_def
          int_dec_def nat_dec_def dec_digits_num)
  moreover have "json_loads [123, 34, 117, 115, 101, 114, 95, 105, 100, 34, 58, 49, 44, 34, 117, 115, 101, 114, 110, 97, 109, 101, 34, 58, 34, 68, 105, 114, 101, 99, 116, 111, 114, 69, 106, 101, 99, 117, 116, 105, 118, 111, 65, 110, 100, 114, 101, 115, 34, 44, 34, 114, 111, 108, 101, 34, 58, 34, 100, 105, 114, 101, 99, 116, 111, 114, 34, 44, 34, 101, 120, 112, 34, 58, 56, 54, 52, 48, 48, 125] = Some (JObj director_claims)"
    by (simp add: json_loads_def parse_value_num parse_members_num parse_chars_num
          director_claims_def str_def is_digit_def cons_ok_def Let_def byte_of_def)
  ultimately show ?thesis by (simp add: py_json_def)
qed




section \<open>The store after the first start\<close>

lemma str_ascii_encode:
  "\<forall>c \<in> set s. c < 128 \<Longrightarrow> utf8_encode s = Inr (map byte_of s)"
  by (rule utf8_encode_ascii)

lemma hash_password_ascii:
  assumes "\<forall>c \<in> set password. c < 128"
  shows "hash_password rnd password None
           = Inr (password_digest password (token_hex rnd), token_hex rnd)"
  using hash_password_fresh [OF utf8_encode_ascii [OF assms], of rnd]
  by (simp add: password_digest_def)

lemma init_db_empty: "init_db (replicate 32 1) (replicate 32 2) 0 empty_db = Inr boot_db"
proof -
  have a: "\<forall>c \<in> set (str ''Hidalgoajhb41''). c < 128"
    and b: "\<forall>c \<in> set (str ''Secretosajhb42''). c < 128"
    by (simp_all add: str_def)
  have ne: "str ''DirectorEjecutivoAndres'' \<noteq> str ''Secretariosajhb1a''"
    by (simp add: str_def)
  show ?thesis
    unfolding init_db_def insert_default_def
    using ne
    by (simp add: hash_password_ascii [OF a] hash_password_ascii [OF b] empty_db_def boot_db_def director_row_def secretario_row_def
          next_id_def seconds_def)
qed

section \<open>Authorisation of the user-management handlers\<close>

lemma remove_bearer_no_space: "32 \<notin> set s \<Longrightarrow> remove_bearer s = s"
proof (induction s)
  case Nil
  show ?case by simp
next
  case (Cons c cs)
  have "take 7 (c # cs) \<noteq> str ''Bearer ''"
  proof
    assume "take 7 (c # cs) = str ''Bearer ''"
    then have "32 \<in> set (take 7 (c # cs))" by (simp add: str_def)
    then have "32 \<in> set (c # cs)" by (rule in_set_takeD)
    with Cons.prems show False by simp
  qed
  with Cons show ?case by simp
qed

lemma remove_bearer_prefix: "remove_bearer (str ''Bearer '' @ s) = remove_bearer s"
  by (simp add: str_def)

lemma base64url_encode_no_space: "c \<in> set (base64url_encode y) \<Longrightarrow> unat c \<noteq> 32"
proof -
  assume "c \<in> set (base64url_encode y)"
  then obtain b where "b \<in> set (b64encode y)" and c: "c = urlsafe_char b" and "c \<noteq> 61"
    by (auto simp: base64url_encode_def)
  then obtain v where "c = urlsafe_char (b64_char v)"
    using b64encode_members [of b y] by (auto simp: urlsafe_pad)
  then show "unat c \<noteq> 32"
    using b64_char_range [of v] by (auto simp: urlsafe_char_def)
qed

lemma generate_token_chars:
  assumes "generate_token J secret t0 uid uname role = Inr token"
  shows "\<exists>h p s. token = map unat (base64url_encode h @ [46]
      @ base64url_encode p @ [46] @ base64url_encode s)"
proof -
  from assms have "token = map unat
     (base64url_encode (dumps J jwt_header) @ [46]
      @ base64url_encode (dumps J (JObj [(str ''user_id'', uid), (str ''username'', uname),
                          (str ''role'', role), (str ''exp'', JInt (seconds (t0 + hours24)))]))
      @ [46]
      @ base64url_encode
          (hmac_sha256 secret
             (base64url_encode (dumps J jwt_header) @ [46]
              @ base64url_encode (dumps J (JObj [(str ''user_id'', uid),
                  (str ''username'', uname), (str ''role'', role),
                  (str ''exp'', JInt (seconds (t0 + hours24)))])))))"
    by (simp add: generate_token_def Let_def jwt_encode_value)
  then show ?thesis by blast
qed

lemma generate_token_no_space:
  assumes "generate_token J secret t0 uid uname role = Inr token"
  shows "32 \<notin> set token"
proof -
  from generate_token_chars [OF assms] obtain h p s where
    "token = map unat (base64url_encode h @ [46] @ base64url_encode p @ [46]
       @ base64url_encode s)"
    by blast
  then show ?thesis by (auto dest: base64url_encode_no_space)
qed

lemma generate_token_ascii:
  assumes "generate_token J secret t0 uid uname role = Inr token"
  shows "\<forall>c \<in> set token. c < 128"
proof -
  from generate_token_chars [OF assms] obtain h p s where
    "token = map unat (base64url_encode h @ [46] @ base64url_encode p @ [46]
       @ base64url_encode s)"
    by blast
  then show ?thesis by (auto dest: base64url_encode_chars(2))
qed

lemma bearer_token_generated:
  assumes "generate_token J secret t0 uid uname role = Inr token"
    and "r_authorization req = Some (str ''Bearer '' @ token)"
  shows "bearer_token req = token"
  using assms(2) generate_token_no_space [OF assms(1)]
  by (simp add: bearer_token_def remove_bearer_prefix remove_bearer_no_space)

text \<open>The director's token is what \<^verbatim>\<open>generate_token\<close> returns for the seeded director.\<close>

lemma director_token:
  "generate_token py_json demo_secret 0 (JInt 1)
     (JStr (str ''DirectorEjecutivoAndres'')) (JStr (str ''director'')) = Inr director_token"
  by (simp add: director_token_def generate_token_def jwt_encode_value Let_def)

lemma verify_director_token:
  "verify_token py_json demo_secret now director_token =
     (if 86400000000 \<le> now then Inr None else Inr (Some director_claims))"
proof -
  have s: "seconds 0 + 86400 = 86400" by (simp add: seconds_def)
  have c: "loads py_json (dumps py_json (JObj [(str ''user_id'', JInt 1),
              (str ''username'', JStr (str ''DirectorEjecutivoAndres'')),
              (str ''role'', JStr (str ''director'')), (str ''exp'', JInt (seconds 0 + 86400))]))
         = Some (JObj [(str ''user_id'', JInt 1),
              (str ''username'', JStr (str ''DirectorEjecutivoAndres'')),
              (str ''role'', JStr (str ''director'')), (str ''exp'', JInt (seconds 0 + 86400))])"
    unfolding s using py_json_director by (simp only: director_claims_def)
  from generate_verify [OF py_json_header c, of demo_secret] director_token
  show ?thesis by (auto simp: s director_claims_def)
qed

lemma check_director_request:
  "now < 86400000000 \<Longrightarrow>
   check_director py_json demo_secret now (director_request data) = Inr (Some director_claims)"
proof -
  assume now: "now < 86400000000"
  have "bearer_token (director_request data) = director_token"
    by (rule bearer_token_generated [OF director_token]) (simp add: director_request_def)
  moreover have "map_of director_claims (str ''role'') = Some (JStr (str ''director''))"
    by (simp add: director_claims_def str_def)
  moreover have "director_claims \<noteq> []" by (simp add: director_claims_def)
  ultimately show ?thesis
    using now by (simp add: check_director_def verify_director_token)
qed


section \<open>The bootstrap director\<close>

text \<open>
  \<^verbatim>\<open>delete_user\<close> refuses the id 1: the store is left as it is, whoever calls; a caller
  with a director's token gets the status 400.
\<close>

lemma delete_user_director_guard:
  "snd (delete_user J secret now 1 req d) = d"
  "check_director J secret now req = Inr (Some payload) \<Longrightarrow>
     fst (delete_user J secret now 1 req d) = Response 400 (error_body no_eliminar_director)"
  by (simp_all add: delete_user_def split: sum.splits option.splits)

lemma delete_user_director_request:
  "delete_user py_json demo_secret 0 1 (director_request JNull) boot_db
     = (Response 400 (error_body no_eliminar_director), boot_db)"
  by (simp add: delete_user_def check_director_request)

text \<open>
  C1. \<^verbatim>\<open>update_user\<close> has no such guard. On the store after the first start, the request
  \<^verbatim>\<open>PUT /api/users/1\<close> with a director's token and the body \<^verbatim>\<open>{"activo": 0}\<close> answers with
  success and clears the active flag of the user with the id 1.
\<close>

theorem update_user_deactivates_director:
  "fst (update_user py_json demo_secret 0 [] 1
          (director_request (JObj [(str ''activo'', JInt 0)])) boot_db)
     = Response 200 (JObj [(str ''success'', JBool True)])
   \<and> map (\<lambda>u. (u_id u, u_activo u))
         (usuarios (snd (update_user py_json demo_secret 0 [] 1
            (director_request (JObj [(str ''activo'', JInt 0)])) boot_db)))
     = [(1, SInt 0), (2, SInt 1)]"
proof -
  have r: "r_json (director_request (JObj [(str ''activo'', JInt 0)]))
             = JObj [(str ''activo'', JInt 0)]"
    by (simp add: director_request_def)
  have u: "update_user py_json demo_secret 0 [] 1
          (director_request (JObj [(str ''activo'', JInt 0)])) boot_db
     = (Response 200 (JObj [(str ''success'', JBool True)]),
        boot_db\<lparr>usuarios :=
          map (\<lambda>u. if u_id u = 1 then u\<lparr>u_activo := SInt 0\<rparr> else u) (usuarios boot_db)\<rparr>)"
    unfolding update_user_def r
    by (simp add: check_director_request new_password_def violates_not_null_def
          set_column_def str_def)
  show ?thesis
    unfolding u by (simp add: boot_db_def director_row_def secretario_row_def)
qed


section \<open>The list of users\<close>

lemma user_row_keys:
  "\<exists>kvs. user_row u = JObj kvs
     \<and> str ''password_hash'' \<notin> fst ` set kvs \<and> str ''salt'' \<notin> fst ` set kvs"
  by (simp add: user_row_def str_def)

text \<open>
  C9. Whenever \<^verbatim>\<open>get_users\<close> answers with the status 200, its body is the success flag
  and a list with one object for each user, and none of these objects has a key
  \<open>password_hash\<close> or \<open>salt\<close>.
\<close>

theorem get_users_no_credentials:
  assumes "get_users J secret now req d = (Response 200 b, d')"
  shows "\<exists>rows. b = JObj [(str ''success'', JBool True), (str ''data'', JArr rows)]
      \<and> length rows = length (usuarios d)
      \<and> (\<forall>row \<in> set rows. \<exists>kvs. row = JObj kvs
            \<and> str ''password_hash'' \<notin> fst ` set kvs \<and> str ''salt'' \<notin> fst ` set kvs)"
proof -
  from assms have
    "b = JObj [(str ''success'', JBool True),
               (str ''data'', JArr (map user_row (sort_key (\<lambda>u. - u_fecha_creacion u)
                                                  (usuarios d))))]"
    by (auto simp: get_users_def split: sum.splits option.splits)
  then show ?thesis
    using user_row_keys by (intro exI conjI) auto
qed

theorem get_users_no_credentials_witness:
  "\<exists>rows. fst (get_users py_json demo_secret 0 (director_request JNull) boot_db)
       = Response 200 (JObj [(str ''success'', JBool True), (str ''data'', JArr rows)])
     \<and> length rows = 2
     \<and> list_all (\<lambda>row. \<exists>kvs. row = JObj kvs
            \<and> str ''password_hash'' \<notin> fst ` set kvs \<and> str ''salt'' \<notin> fst ` set kvs) rows"
proof -
  obtain b where g: "get_users py_json demo_secret 0 (director_request JNull) boot_db
                      = (Response 200 b, boot_db)"
    by (simp add: get_users_def check_director_request)
  from get_users_no_credentials [OF g] g show ?thesis
    by (auto simp: list_all_iff boot_db_def)
qed

section \<open>Logout\<close>

lemma text_eq_deactivated:
  "map (\<lambda>s. if text_eq (s_token s) tok then s\<lparr>s_activa := 0\<rparr> else s)
     (map (\<lambda>s. if text_eq (s_token s) tok then s\<lparr>s_activa := 0\<rparr> else s) ss)
   = map (\<lambda>s. if text_eq (s_token s) tok then s\<lparr>s_activa := 0\<rparr> else s) ss"
  by (induction ss) simp_all

lemma deactivate_inactive:
  "\<forall>s \<in> set ss. text_eq (s_token s) tok \<longrightarrow> s_activa s = 0 \<Longrightarrow>
   map (\<lambda>s. if text_eq (s_token s) tok then s\<lparr>s_activa := 0\<rparr> else s) ss = ss"
  by (induction ss) simp_all

text \<open>
  C7 (amended). A second \<^verbatim>\<open>logout\<close> with the same request gives the response of the first
  and changes nothing, whatever the request. A call whose body is a JSON object reports
  success when its token is missing, false in Python's sense, or a value that SQLite
  can bind; and it leaves the store as it is when no session with that token is active,
  be it that the session is inactive already or that the token was never issued. Every
  other call, that is a body that is no object or a token that SQLite cannot bind,
  returns the status 500 with \<^verbatim>\<open>success\<close> false and leaves the store as it is.
\<close>

theorem logout_idempotent:
  "logout req (snd (logout req d)) = logout req d
   \<and> (\<forall>data token tok.
         r_json req = JObj data \<longrightarrow> py_get (JObj data) (str ''token'') = Inr token \<longrightarrow>
         (\<not> truthy token \<or> sql_bind token = Inr tok) \<longrightarrow>
           fst (logout req d) = Response 200 (JObj [(str ''success'', JBool True)])
         \<and> ((\<forall>s \<in> set (sesiones d). text_eq (s_token s) tok \<longrightarrow> s_activa s = 0) \<longrightarrow>
              snd (logout req d) = d))
   \<and> (\<not> (\<exists>data token.
            r_json req = JObj data \<and> py_get (JObj data) (str ''token'') = Inr token
          \<and> (\<not> truthy token \<or> (\<exists>tok. sql_bind token = Inr tok))) \<longrightarrow>
        logout req d
          = (Response 500 (JObj [(str ''success'', JBool False), (str ''error'', JStr error_interno)]),
             d))"
proof -
  have "logout req (snd (logout req d)) = logout req d"
    by (simp add: logout_def text_eq_deactivated split: sum.splits)
  moreover have "fst (logout req d) = Response 200 (JObj [(str ''success'', JBool True)])
         \<and> ((\<forall>s \<in> set (sesiones d). text_eq (s_token s) tok \<longrightarrow> s_activa s = 0) \<longrightarrow>
              snd (logout req d) = d)"
    if "r_json req = JObj data" "py_get (JObj data) (str ''token'') = Inr token"
      "\<not> truthy token \<or> sql_bind token = Inr tok" for data token tok
    using that by (auto simp: logout_def deactivate_inactive)
  moreover have "logout req d
          = (Response 500 (JObj [(str ''success'', JBool False), (str ''error'', JStr error_interno)]),
             d)"
    if other: "\<not> (\<exists>data token.
            r_json req = JObj data \<and> py_get (JObj data) (str ''token'') = Inr token
          \<and> (\<not> truthy token \<or> (\<exists>tok. sql_bind token = Inr tok)))"
  proof (cases "py_get (r_json req) (str ''token'')")
    case (Inl e)
    then show ?thesis by (simp add: logout_def error_body_def)
  next
    case (Inr token)
    then obtain data where data: "r_json req = JObj data"
      by (cases "r_json req") simp_all
    with other Inr have t: "truthy token" and b: "\<forall>tok. sql_bind token \<noteq> Inr tok"
      by auto
    from b obtain e where "sql_bind token = Inl e"
      by (cases "sql_bind token") auto
    with Inr t show ?thesis by (simp add: logout_def error_body_def)
  qed
  ultimately show ?thesis by blast
qed


theorem logout_idempotent_witness:
  "fst (logout (anonymous_request (JObj [(str ''token'', JStr director_token)]))
          (boot_db\<lparr>sesiones :=
             [\<lparr>s_id = 1, s_user_id = 1, s_token = director_token, s_ip_address = SNull,
               s_user_agent = SNull, s_fecha_inicio = 0, s_fecha_expiracion = 86400,
               s_activa = 1\<rparr>]\<rparr>))
     = Response 200 (JObj [(str ''success'', JBool True)])
   \<and> logout (anonymous_request (JObj [(str ''token'', JStr director_token)]))
       (snd (logout (anonymous_request (JObj [(str ''token'', JStr director_token)]))
          (boot_db\<lparr>sesiones :=
             [\<lparr>s_id = 1, s_user_id = 1, s_token = director_token, s_ip_address = SNull,
               s_user_agent = SNull, s_fecha_inicio = 0, s_fecha_expiracion = 86400,
               s_activa = 1\<rparr>]\<rparr>)))
     = logout (anonymous_request (JObj [(str ''token'', JStr director_token)]))
          (boot_db\<lparr>sesiones :=
             [\<lparr>s_id = 1, s_user_id = 1, s_token = director_token, s_ip_address = SNull,
               s_user_agent = SNull, s_fecha_inicio = 0, s_fecha_expiracion = 86400,
               s_activa = 1\<rparr>]\<rparr>)
   \<and> logout (anonymous_request (JObj [(str ''token'', JArr [JNull])])) boot_db
     = (Response 500 (JObj [(str ''success'', JBool False), (str ''error'', JStr error_interno)]),
        boot_db)"
proof -
  let ?req = "anonymous_request (JObj [(str ''token'', JStr director_token)])"
  let ?bad = "anonymous_request (JObj [(str ''token'', JArr [JNull])])"
  have ascii: "\<forall>c \<in> set director_token. c < 128"
    by (rule generate_token_ascii [OF director_token])
  have bind: "sql_bind (JStr director_token) = Inr (SText director_token)"
    by (simp add: utf8_encode_ascii [OF ascii])
  have get: "py_get (JObj [(str ''token'', JStr director_token)]) (str ''token'')
               = Inr (JStr director_token)"
    by simp
  have r: "r_json ?req = JObj [(str ''token'', JStr director_token)]"
    by (simp add: anonymous_request_def)
  have other: "\<not> (\<exists>data token.
            r_json ?bad = JObj data \<and> py_get (JObj data) (str ''token'') = Inr token
          \<and> (\<not> truthy token \<or> (\<exists>tok. sql_bind token = Inr tok)))"
    by (auto simp: anonymous_request_def)
  from logout_idempotent [of ?req] r get bind
  have "fst (logout ?req
          (boot_db\<lparr>sesiones :=
             [\<lparr>s_id = 1, s_user_id = 1, s_token = director_token, s_ip_address = SNull,
               s_user_agent = SNull, s_fecha_inicio = 0, s_fecha_expiracion = 86400,
               s_activa = 1\<rparr>]\<rparr>))
     = Response 200 (JObj [(str ''success'', JBool True)])"
    and "logout ?req
       (snd (logout ?req
          (boot_db\<lparr>sesiones :=
             [\<lparr>s_id = 1, s_user_id = 1, s_token = director_token, s_ip_address = SNull,
               s_user_agent = SNull, s_fecha_inicio = 0, s_fecha_expiracion = 86400,
               s_activa = 1\<rparr>]\<rparr>)))
     = logout ?req
          (boot_db\<lparr>sesiones :=
             [\<lparr>s_id = 1, s_user_id = 1, s_token = director_token, s_ip_address = SNull,
               s_user_agent = SNull, s_fecha_inicio = 0, s_fecha_expiracion = 86400,
               s_activa = 1\<rparr>]\<rparr>)"
    by blast+
  moreover from logout_idempotent [of ?bad boot_db] other
  have "logout ?bad boot_db
     = (Response 500 (JObj [(str ''success'', JBool False), (str ''error'', JStr error_interno)]),
        boot_db)"
    by blast
  ultimately show ?thesis by blast
qed

text \<open>
  The claim as stated fails where the handler's \<^verbatim>\<open>except\<close> clause answers: a token
  without a UTF-8 encoding cannot be bound to the statement, and a body that is not an
  object has no method \<^verbatim>\<open>get\<close>. Both calls report a failure with the status 500.
\<close>

theorem logout_counterexample:
  "logout (anonymous_request (JObj [(str ''token'', JStr [0xD800])])) boot_db
     = (Response 500 (JObj [(str ''success'', JBool False), (str ''error'', JStr error_interno)]),
        boot_db)
   \<and> logout (anonymous_request (JArr [])) boot_db
     = (Response 500 (JObj [(str ''success'', JBool False), (str ''error'', JStr error_interno)]),
        boot_db)"
  by (simp add: logout_def anonymous_request_def utf8_enc1_def error_body_def)

section \<open>Login\<close>

lemma verify_password_digest:
  assumes "\<forall>c \<in> set password. c < 128" "\<forall>c \<in> set salt. c < 128"
  shows "verify_password password (password_digest password salt) salt = Inr True"
  unfolding password_digest_def
  by (simp add: verify_password_value [OF utf8_encode_ascii [OF assms(1)]
        utf8_encode_ascii [OF assms(2)]])

lemma sql_bind_ascii: "\<forall>c \<in> set s. c < 128 \<Longrightarrow> sql_bind (JStr s) = Inr (SText s)"
  by (simp add: utf8_encode_ascii)

text \<open>The two rejections of \<^verbatim>\<open>login\<close>: no active user of that name, and a wrong password.\<close>

lemma login_unknown_user:
  assumes "r_json req = JObj data"
    and "py_get (JObj data) (str ''username'') = Inr username" "truthy username"
    and "py_get (JObj data) (str ''password'') = Inr password" "truthy password"
    and "sql_bind username = Inr uname"
    and "filter (\<lambda>u. text_eq (u_username u) uname \<and> u_activo u = SInt 1) (usuarios d) = []"
  shows "login J secret clk req d
    = (Response 401 (error_body credenciales_invalidas),
       log_access None uname (str ''login_fallido'') (r_remote_addr req) False (now_log clk) d)"
  using assms by (simp add: login_def)

lemma login_wrong_password:
  assumes "r_json req = JObj data"
    and "py_get (JObj data) (str ''username'') = Inr username" "truthy username"
    and "py_get (JObj data) (str ''password'') = Inr password" "truthy password"
    and "sql_bind username = Inr uname"
    and "filter (\<lambda>u. text_eq (u_username u) uname \<and> u_activo u = SInt 1) (usuarios d)
           = user # others"
    and "check_password password (u_password_hash user) (u_salt user) = Inr False"
  shows "login J secret clk req d
    = (Response 401 (error_body credenciales_invalidas),
       log_access (Some (u_id user)) uname (str ''login_fallido'') (r_remote_addr req) False
         (now_log clk) d)"
  using assms by (simp add: login_def)

lemma login_success:
  assumes "r_json req = JObj data"
    and "py_get (JObj data) (str ''username'') = Inr username" "truthy username"
    and "py_get (JObj data) (str ''password'') = Inr password" "truthy password"
    and "sql_bind username = Inr uname"
    and "filter (\<lambda>u. text_eq (u_username u) uname \<and> u_activo u = SInt 1) (usuarios d)
           = user # others"
    and "check_password password (u_password_hash user) (u_salt user) = Inr True"
    and "generate_token J secret (utcnow_token clk) (JInt (u_id user))
           (JStr (u_username user)) (sql_json (u_role user)) = Inr token"
  shows "login J secret clk req d
    = (Response 200
         (JObj [(str ''success'', JBool True), (str ''token'', JStr token),
                (str ''user'',
                 JObj [(str ''id'', JInt (u_id user)),
                       (str ''username'', JStr (u_username user)),
                       (str ''nombre_completo'', sql_json (u_nombre_completo user)),
                       (str ''role'', sql_json (u_role user)),
                       (str ''permisos'', sql_json (u_permisos user))])]),
       log_access (Some (u_id user)) uname (str ''login_exitoso'') (r_remote_addr req) True
         (now_log clk)
         (d\<lparr>usuarios :=
              map (\<lambda>u. if u_id u = u_id user
                        then u\<lparr>u_ultimo_acceso := Some (seconds (now_actual clk))\<rparr> else u)
                (usuarios d),
            sesiones := sesiones d @
              [\<lparr>s_id = next_id (map s_id (sesiones d)), s_user_id = u_id user,
                s_token = token, s_ip_address = r_remote_addr req,
                s_user_agent = r_user_agent req,
                s_fecha_inicio = seconds (now_actual clk),
                s_fecha_expiracion = seconds (now_expiracion clk + hours24),
                s_activa = 1\<rparr>]\<rparr>))"
  using assms by (simp add: login_def Let_def)

lemma login_password_raises:
  assumes "r_json req = JObj data"
    and "py_get (JObj data) (str ''username'') = Inr username" "truthy username"
    and "py_get (JObj data) (str ''password'') = Inr password" "truthy password"
    and "sql_bind username = Inr uname"
    and "filter (\<lambda>u. text_eq (u_username u) uname \<and> u_activo u = SInt 1) (usuarios d)
           = user # others"
    and "check_password password (u_password_hash user) (u_salt user) = Inl e"
  shows "login J secret clk req d = (Response 500 (error_body error_interno), d)"
  using assms by (simp add: login_def)


text \<open>The rows that \<^verbatim>\<open>login\<close> selects from the store after the first start.\<close>

lemma known_director:
  "sql_bind (JStr (str ''DirectorEjecutivoAndres'')) = Inr (SText (str ''DirectorEjecutivoAndres''))"
  by (rule sql_bind_ascii) (simp add: str_def)

lemma unknown_nadie: "sql_bind (JStr (str ''nadie'')) = Inr (SText (str ''nadie''))"
  by (rule sql_bind_ascii) (simp add: str_def)

lemma active_director:
  "filter (\<lambda>u. text_eq (u_username u) (SText (str ''DirectorEjecutivoAndres''))
                \<and> u_activo u = SInt 1) (usuarios boot_db) = director_row # []"
  by (simp add: boot_db_def director_row_def secretario_row_def str_def)

lemma active_nadie:
  "filter (\<lambda>u. text_eq (u_username u) (SText (str ''nadie'')) \<and> u_activo u = SInt 1)
     (usuarios boot_db) = []"
  by (simp add: boot_db_def director_row_def secretario_row_def str_def)

text \<open>
  With a password that is a string with a UTF-8 encoding, the two rejections give the
  same response.
\<close>

lemma login_rejections_equal:
  assumes "r_json req = JObj data" "r_json req' = JObj data'"
    and "py_get (JObj data) (str ''username'') = Inr username" "truthy username"
    and "py_get (JObj data) (str ''password'') = Inr password" "truthy password"
    and "sql_bind username = Inr uname"
    and "filter (\<lambda>u. text_eq (u_username u) uname \<and> u_activo u = SInt 1) (usuarios d) = []"
    and "py_get (JObj data') (str ''username'') = Inr username'" "truthy username'"
    and "py_get (JObj data') (str ''password'') = Inr password'" "truthy password'"
    and "sql_bind username' = Inr uname'"
    and "filter (\<lambda>u. text_eq (u_username u) uname' \<and> u_activo u = SInt 1) (usuarios d)
           = user # others"
    and "check_password password' (u_password_hash user) (u_salt user) = Inr False"
  shows "fst (login J secret clk req d) = fst (login J secret clk' req' d)"
    and "fst (login J secret clk req d) = Response 401 (error_body credenciales_invalidas)"
  using login_unknown_user [OF assms(1,3,4,5,6,7,8), of J secret clk]
    login_wrong_password [OF assms(2,9,10,11,12,13,14,15), of J secret clk']
  by simp_all

text \<open>
  C5. The code breaks the claim where \<^verbatim>\<open>verify_password\<close> raises: for a password that is
  not a string, or a string without a UTF-8 encoding, a known active user gets the
  status 500 from the handler's \<^verbatim>\<open>except\<close> clause, and an unknown user the status 401.
\<close>

theorem login_distinguishes_users:
  "fst (login py_json demo_secret \<lparr>utcnow_token = 0, now_actual = 0, now_expiracion = 0, now_log = 0\<rparr>
          (anonymous_request (JObj [(str ''username'', JStr (str ''DirectorEjecutivoAndres'')),
                                    (str ''password'', JStr [0xD800])])) boot_db)
     = Response 500 (error_body error_interno)
   \<and> fst (login py_json demo_secret \<lparr>utcnow_token = 0, now_actual = 0, now_expiracion = 0, now_log = 0\<rparr>
          (anonymous_request (JObj [(str ''username'', JStr (str ''nadie'')),
                                    (str ''password'', JStr [0xD800])])) boot_db)
     = Response 401 (error_body credenciales_invalidas)
   \<and> fst (login py_json demo_secret \<lparr>utcnow_token = 0, now_actual = 0, now_expiracion = 0, now_log = 0\<rparr>
          (anonymous_request (JObj [(str ''username'', JStr (str ''DirectorEjecutivoAndres'')),
                                    (str ''password'', JInt 12345)])) boot_db)
     = Response 500 (error_body error_interno)
   \<and> fst (login py_json demo_secret \<lparr>utcnow_token = 0, now_actual = 0, now_expiracion = 0, now_log = 0\<rparr>
          (anonymous_request (JObj [(str ''username'', JStr (str ''nadie'')),
                                    (str ''password'', JInt 12345)])) boot_db)
     = Response 401 (error_body credenciales_invalidas)"
proof -
  let ?clk = "\<lparr>utcnow_token = 0, now_actual = 0, now_expiracion = 0, now_log = 0\<rparr>"
  have surrogate: "check_password (JStr [0xD800]) h s = Inl UnicodeEncodeError" for h s
    by (simp add: verify_password_def hash_password_def utf8_enc1_def)
  have number: "check_password (JInt 12345) h s = Inl AttributeError" for h s
    by simp
  have r: "r_json (anonymous_request data) = data" for data
    by (simp add: anonymous_request_def)
  have get: "py_get (JObj [(str ''username'', u), (str ''password'', p)]) (str ''username'') = Inr u"
    "py_get (JObj [(str ''username'', u), (str ''password'', p)]) (str ''password'') = Inr p"
    for u p
    by (simp_all add: str_def)
  have a: "fst (login py_json demo_secret ?clk
          (anonymous_request (JObj [(str ''username'', JStr (str ''DirectorEjecutivoAndres'')),
                                    (str ''password'', p)])) boot_db)
     = Response 500 (error_body error_interno)"
    if "truthy p" "check_password p (u_password_hash director_row) (u_salt director_row) = Inl e"
    for p e
    by (subst login_password_raises [OF r get(1) _ get(2) that(1) known_director
          active_director that(2)]) (simp_all add: str_def)
  have b: "fst (login py_json demo_secret ?clk
          (anonymous_request (JObj [(str ''username'', JStr (str ''nadie'')),
                                    (str ''password'', p)])) boot_db)
     = Response 401 (error_body credenciales_invalidas)"
    if "truthy p" for p
    by (subst login_unknown_user [OF r get(1) _ get(2) that unknown_nadie active_nadie])
      (simp_all add: str_def)
  show ?thesis
    using a [OF _ surrogate] a [OF _ number] b [of "JStr [0xD800]"] b [of "JInt 12345"]
    by simp
qed

theorem login_distinguishes_users_witness:
  "fst (login py_json demo_secret \<lparr>utcnow_token = 0, now_actual = 0, now_expiracion = 0, now_log = 0\<rparr>
          (anonymous_request (JObj [(str ''username'', JStr (str ''DirectorEjecutivoAndres'')),
                                    (str ''password'', JStr [0xD800])])) boot_db)
     \<noteq> fst (login py_json demo_secret \<lparr>utcnow_token = 0, now_actual = 0, now_expiracion = 0, now_log = 0\<rparr>
          (anonymous_request (JObj [(str ''username'', JStr (str ''nadie'')),
                                    (str ''password'', JStr [0xD800])])) boot_db)"
  using login_distinguishes_users by simp

text \<open>
  C10 (amended). For a user name whose rows in the store all have the active flag 0, a
  login request with that name is rejected whatever it carries as password, and whether
  or not that is the password of the account: with the status 401 and the message for
  invalid credentials when the password is true in Python's sense, the store getting
  one more row in the access log; with the status 400 and the message for incomplete
  credentials when the password is missing, empty or false otherwise, the store left as
  it is. In neither case the response carries a token or the store gets a session.
\<close>

theorem login_inactive_user:
  assumes "r_json req = JObj data"
    and "map_of data (str ''username'') = Some (JStr name)" "name \<noteq> []"
    and "utf8_encode name = Inr nb"
    and "\<forall>u \<in> set (usuarios d). u_username u = name \<longrightarrow> u_activo u = SInt 0"
  shows "login J secret clk req d
       = (if truthy (case map_of data (str ''password'') of None \<Rightarrow> JNull | Some v \<Rightarrow> v)
          then (Response 401 (error_body credenciales_invalidas),
                log_access None (SText name) (str ''login_fallido'') (r_remote_addr req) False
                  (now_log clk) d)
          else (Response 400 (error_body credenciales_incompletas), d))
     \<and> sesiones (snd (login J secret clk req d)) = sesiones d
     \<and> usuarios (snd (login J secret clk req d)) = usuarios d"
proof -
  let ?password = "case map_of data (str ''password'') of None \<Rightarrow> JNull | Some v \<Rightarrow> v"
  have none: "filter (\<lambda>u. text_eq (u_username u) (SText name) \<and> u_activo u = SInt 1) (usuarios d) = []"
    using assms(5) by (auto simp: filter_empty_conv)
  have get: "py_get (JObj data) (str ''username'') = Inr (JStr name)"
    "py_get (JObj data) (str ''password'') = Inr ?password"
    and bind: "sql_bind (JStr name) = Inr (SText name)" and name: "truthy (JStr name)"
    using assms(2-4) by simp_all
  have result: "login J secret clk req d
       = (if truthy ?password
          then (Response 401 (error_body credenciales_invalidas),
                log_access None (SText name) (str ''login_fallido'') (r_remote_addr req) False
                  (now_log clk) d)
          else (Response 400 (error_body credenciales_incompletas), d))"
  proof (cases "truthy ?password")
    case True
    with login_unknown_user [OF assms(1) get(1) name get(2) True bind none]
    show ?thesis by simp
  next
    case False
    then show ?thesis using assms(1) get name by (simp add: login_def)
  qed
  then show ?thesis by (simp add: log_access_def)
qed


lemma delete_secretario:
  "delete_user py_json demo_secret 0 2 (director_request JNull) boot_db
     = (Response 200 (JObj [(str ''success'', JBool True)]),
        boot_db\<lparr>usuarios := [director_row, secretario_row\<lparr>u_activo := SInt 0\<rparr>]\<rparr>)"
  by (simp add: delete_user_def check_director_request boot_db_def director_row_def
        secretario_row_def)

theorem login_inactive_user_witness:
  "login py_json demo_secret \<lparr>utcnow_token = 0, now_actual = 0, now_expiracion = 0, now_log = 0\<rparr>
     (anonymous_request (JObj [(str ''username'', JStr (str ''Secretariosajhb1a'')),
                               (str ''password'', JStr (str ''Secretosajhb42''))]))
     (snd (delete_user py_json demo_secret 0 2 (director_request JNull) boot_db))
   = (Response 401 (error_body credenciales_invalidas),
      log_access None (SText (str ''Secretariosajhb1a'')) (str ''login_fallido'')
        (SText (str ''127.0.0.1'')) False 0
        (snd (delete_user py_json demo_secret 0 2 (director_request JNull) boot_db)))
   \<and> sesiones (snd (login py_json demo_secret
          \<lparr>utcnow_token = 0, now_actual = 0, now_expiracion = 0, now_log = 0\<rparr>
          (anonymous_request (JObj [(str ''username'', JStr (str ''Secretariosajhb1a'')),
                                    (str ''password'', JStr (str ''Secretosajhb42''))]))
          (snd (delete_user py_json demo_secret 0 2 (director_request JNull) boot_db))))
     = []"
proof -
  let ?d = "snd (delete_user py_json demo_secret 0 2 (director_request JNull) boot_db)"
  let ?data = "[(str ''username'', JStr (str ''Secretariosajhb1a'')),
                (str ''password'', JStr (str ''Secretosajhb42''))]"
  have r: "r_json (anonymous_request (JObj ?data)) = JObj ?data"
    by (simp add: anonymous_request_def)
  have u: "map_of ?data (str ''username'') = Some (JStr (str ''Secretariosajhb1a''))"
    and p: "map_of ?data (str ''password'') = Some (JStr (str ''Secretosajhb42''))"
    by (simp_all add: str_def)
  have ne: "str ''Secretariosajhb1a'' \<noteq> []" and t: "truthy (JStr (str ''Secretosajhb42''))"
    by (simp_all add: str_def)
  have enc: "utf8_encode (str ''Secretariosajhb1a'') = Inr (map byte_of (str ''Secretariosajhb1a''))"
    by (rule utf8_encode_ascii) (simp add: str_def)
  have inactive: "\<forall>u \<in> set (usuarios ?d).
      u_username u = str ''Secretariosajhb1a'' \<longrightarrow> u_activo u = SInt 0"
    by (simp add: delete_secretario director_row_def secretario_row_def str_def)
  have "sesiones ?d = sesiones boot_db"
    by (simp add: delete_secretario)
  then have s: "sesiones ?d = []"
    by (simp add: boot_db_def)
  note inactive_login = login_inactive_user [OF r u ne enc inactive,
      of py_json demo_secret "\<lparr>utcnow_token = 0, now_actual = 0, now_expiracion = 0, now_log = 0\<rparr>"]
  have "login py_json demo_secret
          \<lparr>utcnow_token = 0, now_actual = 0, now_expiracion = 0, now_log = 0\<rparr>
          (anonymous_request (JObj ?data)) ?d
      = (Response 401 (error_body credenciales_invalidas),
         log_access None (SText (str ''Secretariosajhb1a'')) (str ''login_fallido'')
           (SText (str ''127.0.0.1'')) False 0 ?d)"
    using inactive_login [THEN conjunct1]
    by (simp only: p t option.case if_True) (simp add: anonymous_request_def)
  moreover have "sesiones (snd (login py_json demo_secret
          \<lparr>utcnow_token = 0, now_actual = 0, now_expiracion = 0, now_log = 0\<rparr>
          (anonymous_request (JObj ?data)) ?d)) = []"
    using inactive_login [THEN conjunct2, THEN conjunct1] by (simp only: s)
  ultimately show ?thesis by (rule conjI)
qed

text \<open>
  The claim as stated fails on a password that is false in Python's sense: the request
  for the deactivated secretary with the empty password is answered before the store
  is consulted, with the status 400 and not 401.
\<close>

theorem login_inactive_counterexample:
  "usuarios (snd (delete_user py_json demo_secret 0 2 (director_request JNull) boot_db))
     = [director_row, secretario_row\<lparr>u_activo := SInt 0\<rparr>]
   \<and> u_username secretario_row = str ''Secretariosajhb1a''
   \<and> login py_json demo_secret
       \<lparr>utcnow_token = 0, now_actual = 0, now_expiracion = 0, now_log = 0\<rparr>
       (anonymous_request (JObj [(str ''username'', JStr (str ''Secretariosajhb1a'')),
                                 (str ''password'', JStr [])]))
       (snd (delete_user py_json demo_secret 0 2 (director_request JNull) boot_db))
     = (Response 400 (error_body credenciales_incompletas),
        snd (delete_user py_json demo_secret 0 2 (director_request JNull) boot_db))"
  by (simp add: delete_secretario secretario_row_def login_def anonymous_request_def str_def)

text \<open>
  The session row of a successful login: the issue time is the clock reading taken for
  \<^verbatim>\<open>fecha_actual\<close>, and the expiry is a later reading of the clock plus 24 hours.
\<close>

lemma login_session_row:
  assumes "login J secret clk req d = (Response 200 b, d')"
  shows "\<exists>s. sesiones d' = sesiones d @ [s]
      \<and> s_fecha_inicio s = seconds (now_actual clk)
      \<and> s_fecha_expiracion s = seconds (now_expiracion clk) + 86400
      \<and> s_activa s = 1"
  using assms
  by (auto simp: login_def log_access_def Let_def seconds_hours24
      split: sum.splits list.splits bool.splits if_splits)

lemma login_session_same_second:
  assumes "login J secret clk req d = (Response 200 b, d')"
    and "seconds (now_expiracion clk) = seconds (now_actual clk)"
  shows "\<exists>s. sesiones d' = sesiones d @ [s] \<and> s_fecha_expiracion s = s_fecha_inicio s + 86400"
  using login_session_row [OF assms(1)] assms(2) by auto

text \<open>
  C8. The code breaks the claim when a second boundary falls between its two readings
  of the clock: the director logs in with the right password, \<^verbatim>\<open>fecha_actual\<close> is taken at
  0.999999 s and \<^verbatim>\<open>fecha_expiracion\<close> at 1.000000 s; the session row has the issue time 0 and
  the expiry 86401, one second more than the issue time plus 24 hours.
\<close>

theorem login_session_expiry_drift:
  "status (fst (login py_json demo_secret
       \<lparr>utcnow_token = 999990, now_actual = 999999, now_expiracion = 1000000, now_log = 1000010\<rparr>
       (anonymous_request (JObj [(str ''username'', JStr (str ''DirectorEjecutivoAndres'')),
                                 (str ''password'', JStr (str ''Hidalgoajhb41''))])) boot_db)) = 200
   \<and> map (\<lambda>s. (s_fecha_inicio s, s_fecha_expiracion s))
        (sesiones (snd (login py_json demo_secret
       \<lparr>utcnow_token = 999990, now_actual = 999999, now_expiracion = 1000000, now_log = 1000010\<rparr>
       (anonymous_request (JObj [(str ''username'', JStr (str ''DirectorEjecutivoAndres'')),
                                 (str ''password'', JStr (str ''Hidalgoajhb41''))])) boot_db)))
     = [(0, 86401)]"
proof -
  let ?clk = "\<lparr>utcnow_token = 999990, now_actual = 999999, now_expiracion = 1000000,
               now_log = 1000010\<rparr>"
  let ?req = "anonymous_request (JObj [(str ''username'', JStr (str ''DirectorEjecutivoAndres'')),
                                 (str ''password'', JStr (str ''Hidalgoajhb41''))])"
  have pw: "check_password (JStr (str ''Hidalgoajhb41'')) (u_password_hash director_row)
              (u_salt director_row) = Inr True"
    unfolding director_row_def
    by (simp add: verify_password_digest token_hex_ascii str_def)
  obtain token where tok: "generate_token py_json demo_secret 999990 (JInt (u_id director_row))
       (JStr (u_username director_row)) (sql_json (u_role director_row)) = Inr token"
    by (simp add: generate_token_def jwt_encode_value Let_def)
  have get: "py_get (r_json ?req) (str ''username'') = Inr (JStr (str ''DirectorEjecutivoAndres''))"
    "py_get (r_json ?req) (str ''password'') = Inr (JStr (str ''Hidalgoajhb41''))"
    by (simp_all add: anonymous_request_def str_def)
  have t: "truthy (JStr (str ''DirectorEjecutivoAndres''))" "truthy (JStr (str ''Hidalgoajhb41''))"
    by (simp_all add: str_def)
  have r: "r_json ?req = JObj [(str ''username'', JStr (str ''DirectorEjecutivoAndres'')),
                                 (str ''password'', JStr (str ''Hidalgoajhb41''))]"
    by (simp add: anonymous_request_def)
  note login_success [OF r get(1) [unfolded r] t(1) get(2) [unfolded r] t(2) known_director
      active_director pw, of py_json demo_secret ?clk token, simplified, OF tok]
  then show ?thesis
    by (simp add: log_access_def boot_db_def seconds_def hours24_def)
qed

theorem login_session_expiry_drift_witness:
  "map (\<lambda>s. s_fecha_expiracion s - s_fecha_inicio s)
        (sesiones (snd (login py_json demo_secret
       \<lparr>utcnow_token = 999990, now_actual = 999999, now_expiracion = 1000000, now_log = 1000010\<rparr>
       (anonymous_request (JObj [(str ''username'', JStr (str ''DirectorEjecutivoAndres'')),
                                 (str ''password'', JStr (str ''Hidalgoajhb41''))])) boot_db)))
     = [86401]"
proof -
  let ?ss = "sesiones (snd (login py_json demo_secret
       \<lparr>utcnow_token = 999990, now_actual = 999999, now_expiracion = 1000000, now_log = 1000010\<rparr>
       (anonymous_request (JObj [(str ''username'', JStr (str ''DirectorEjecutivoAndres'')),
                                 (str ''password'', JStr (str ''Hidalgoajhb41''))])) boot_db))"
  have "map (\<lambda>s. (s_fecha_inicio s, s_fecha_expiracion s)) ?ss = [(0, 86401)]"
    using login_session_expiry_drift by simp
  then have "map (\<lambda>p. snd p - fst p) (map (\<lambda>s. (s_fecha_inicio s, s_fecha_expiracion s)) ?ss)
               = [86401]"
    by simp
  then show ?thesis by (simp add: o_def)
qed

end
